theory Spec2Isabelle
  imports Main "HOL-Library.Word"
begin

section \<open>Common data\<close>

text \<open>
  Byte strings are lists of 8-bit words. Timestamps are nanosecond counts
  (\<^verbatim>\<open>protocol.Timestamp\<close>, read through \<^verbatim>\<open>Nano()\<close>); quantities are the values of
  \<^verbatim>\<open>uint64\<close> fields, of which the code below only compares, copies and subtracts after
  a comparison, so that they are natural numbers here.
\<close>

type_synonym byte = "8 word"
type_synonym bytes = "byte list"
type_synonym Timestamp = nat

section \<open>Inspector: classification of tokenized transactions\<close>

text \<open>
  The action codes are the string constants \<^verbatim>\<open>protocol.Code...\<close> of the protocol library,
  one per defined action. They are pairwise distinct; the type below has one constructor
  per constant, named as the constant is.
\<close>

datatype action_code =
    CodeContractOffer | CodeContractFormation | CodeContractAmendment
  | CodeStaticContractFormation | CodeContractAddressChange
  | CodeAssetDefinition | CodeAssetCreation | CodeAssetModification
  | CodeTransfer | CodeSettlement
  | CodeProposal | CodeVote | CodeBallotCast | CodeBallotCounted | CodeResult
  | CodeOrder | CodeFreeze | CodeThaw | CodeConfiscation | CodeReconciliation
  | CodeMessage | CodeRejection

text \<open>\<^verbatim>\<open>incomingMessageTypes\<close> and \<^verbatim>\<open>outgoingMessageTypes\<close>: the two tables of the inspector,
  entry by entry.\<close>

definition incomingMessageTypes :: "(action_code \<times> bool) list" where
  "incomingMessageTypes =
    [(CodeContractOffer, True),
     (CodeContractAmendment, True),
     (CodeAssetDefinition, True),
     (CodeAssetModification, True),
     (CodeTransfer, True),
     (CodeProposal, True),
     (CodeBallotCast, True),
     (CodeOrder, True)]"

definition outgoingMessageTypes :: "(action_code \<times> bool) list" where
  "outgoingMessageTypes =
    [(CodeAssetCreation, True),
     (CodeContractFormation, True),
     (CodeSettlement, True),
     (CodeVote, True),
     (CodeBallotCounted, True),
     (CodeResult, True),
     (CodeFreeze, True),
     (CodeThaw, True),
     (CodeConfiscation, True),
     (CodeReconciliation, True),
     (CodeRejection, True)]"

text \<open>Of an inspector transaction only \<^verbatim>\<open>MsgProto\<close> matters here: \<open>None\<close> is the nil
  message of a transaction that is not tokenized, \<open>Some c\<close> a message whose \<^verbatim>\<open>Type()\<close>
  is \<open>c\<close>.\<close>

definition IsTokenized :: "action_code option \<Rightarrow> bool" where
  "IsTokenized MsgProto = (MsgProto \<noteq> None)"

definition IsIncomingMessageType :: "action_code option \<Rightarrow> bool" where
  "IsIncomingMessageType MsgProto =
    (case MsgProto of
       None \<Rightarrow> False
     | Some c \<Rightarrow> (case map_of incomingMessageTypes c of None \<Rightarrow> False | Some _ \<Rightarrow> True))"

definition IsOutgoingMessageType :: "action_code option \<Rightarrow> bool" where
  "IsOutgoingMessageType MsgProto =
    (case MsgProto of
       None \<Rightarrow> False
     | Some c \<Rightarrow> (case map_of outgoingMessageTypes c of None \<Rightarrow> False | Some _ \<Rightarrow> True))"

section \<open>Contract state\<close>

type_synonym PublicKeyHash = bytes
type_synonym AssetCode = bytes
type_synonym RawAddress = bytes
type_synonym Entity = bytes
type_synonym VotingSystem = bytes
type_synonym Oracle = bytes

text \<open>
  \<^verbatim>\<open>state.Contract\<close>, with the fields that \<^verbatim>\<open>internal/contract\<close> and the handlers read
  and write. A slice that the code compares with nil is an optional list (\<open>None\<close> is the
  nil slice). An address is its bytes, and the empty address has none.
\<close>

record Contract =
  ID :: PublicKeyHash
  Revision :: nat
  CreatedAt :: Timestamp
  UpdatedAt :: Timestamp
  Timestamp :: Timestamp
  IssuerPKH :: PublicKeyHash
  OperatorPKH :: PublicKeyHash
  AdministrationAddress :: RawAddress
  OperatorAddress :: RawAddress
  MasterAddress :: RawAddress
  MovedTo :: RawAddress
  ContractName :: string
  ContractType :: string
  BodyOfAgreementType :: nat
  BodyOfAgreement :: bytes
  SupportingDocsFileType :: nat
  SupportingDocs :: bytes
  GoverningLaw :: string
  Jurisdiction :: string
  ContractExpiration :: Timestamp
  ContractURI :: string
  Issuer :: Entity
  IssuerLogoURL :: string
  ContractOperator :: Entity
  ContractAuthFlags :: bytes
  ContractFee :: nat
  VotingSystems :: "VotingSystem list option"
  RestrictedQtyAssets :: nat
  IssuerProposal :: bool
  HolderProposal :: bool
  Oracles :: "Oracle list option"
  FreezePeriod :: Timestamp
  AssetCodes :: "AssetCode list"
  AdminMemberAsset :: AssetCode

text \<open>\<^verbatim>\<open>contract.UpdateContract\<close>: one pointer per field that can be updated, \<open>None\<close> for
  nil.\<close>

record UpdateContract =
  upd_Revision :: "nat option"
  upd_Timestamp :: "Timestamp option"
  upd_IssuerPKH :: "PublicKeyHash option"
  upd_OperatorPKH :: "PublicKeyHash option"
  upd_ContractName :: "string option"
  upd_ContractType :: "string option"
  upd_BodyOfAgreementType :: "nat option"
  upd_BodyOfAgreement :: "bytes option"
  upd_SupportingDocsFileType :: "nat option"
  upd_SupportingDocs :: "bytes option"
  upd_GoverningLaw :: "string option"
  upd_Jurisdiction :: "string option"
  upd_ContractExpiration :: "Timestamp option"
  upd_ContractURI :: "string option"
  upd_Issuer :: "Entity option"
  upd_IssuerLogoURL :: "string option"
  upd_ContractOperator :: "Entity option"
  upd_ContractAuthFlags :: "bytes option"
  upd_ContractFee :: "nat option"
  upd_VotingSystems :: "VotingSystem list option option"
  upd_RestrictedQtyAssets :: "nat option"
  upd_IssuerProposal :: "bool option"
  upd_HolderProposal :: "bool option"
  upd_Oracles :: "Oracle list option option"
  upd_FreezePeriod :: "Timestamp option"

datatype contract_error = ErrNotFound | ErrInvalidID

type_synonym contract_db = "PublicKeyHash \<rightharpoonup> Contract"

text \<open>Modelled from the spec: \<^verbatim>\<open>Fetch\<close> and \<^verbatim>\<open>Save\<close> of \<^verbatim>\<open>internal/contract\<close> are not among
  the sources. The store keeps one contract per contract address (\<^verbatim>\<open>contracts/<addr>\<close>):
  \<^verbatim>\<open>Fetch\<close> reads the record at the address and fails when there is none, \<^verbatim>\<open>Save\<close> writes
  the record at the address it carries in \<^verbatim>\<open>ID\<close>.\<close>

definition Fetch :: "contract_db \<Rightarrow> PublicKeyHash \<Rightarrow> contract_error + Contract" where
  "Fetch dbConn contractPKH =
    (case dbConn contractPKH of None \<Rightarrow> Inl ErrNotFound | Some c \<Rightarrow> Inr c)"

definition Save :: "contract_db \<Rightarrow> Contract \<Rightarrow> contract_db" where
  "Save dbConn c = dbConn(ID c \<mapsto> c)"

text \<open>One guarded assignment of \<^verbatim>\<open>Update\<close>: \<^verbatim>\<open>if upd.F != nil { c.F = *upd.F }\<close>.\<close>

definition assign :: "'a option \<Rightarrow> 'a \<Rightarrow> 'a" where
  "assign p old = (case p of None \<Rightarrow> old | Some v \<Rightarrow> v)"

text \<open>The guarded assignment of a slice, which replaces a nil slice by the empty one.\<close>

definition assign_slice :: "'a list option option \<Rightarrow> 'a list option \<Rightarrow> 'a list option" where
  "assign_slice p old =
    (case p of
       None \<Rightarrow> old
     | Some v \<Rightarrow> (case v of None \<Rightarrow> Some [] | Some xs \<Rightarrow> Some xs))"

definition apply_update :: "UpdateContract \<Rightarrow> Timestamp \<Rightarrow> Contract \<Rightarrow> Contract" where
  "apply_update upd now c =
    c\<lparr> Revision := assign (upd_Revision upd) (Revision c),
       Timestamp := assign (upd_Timestamp upd) (Timestamp c),
       IssuerPKH := assign (upd_IssuerPKH upd) (IssuerPKH c),
       OperatorPKH := assign (upd_OperatorPKH upd) (OperatorPKH c),
       ContractName := assign (upd_ContractName upd) (ContractName c),
       ContractType := assign (upd_ContractType upd) (ContractType c),
       BodyOfAgreementType := assign (upd_BodyOfAgreementType upd) (BodyOfAgreementType c),
       BodyOfAgreement := assign (upd_BodyOfAgreement upd) (BodyOfAgreement c),
       SupportingDocsFileType :=
         assign (upd_SupportingDocsFileType upd) (SupportingDocsFileType c),
       SupportingDocs := assign (upd_SupportingDocs upd) (SupportingDocs c),
       GoverningLaw := assign (upd_GoverningLaw upd) (GoverningLaw c),
       Jurisdiction := assign (upd_Jurisdiction upd) (Jurisdiction c),
       ContractExpiration := assign (upd_ContractExpiration upd) (ContractExpiration c),
       ContractURI := assign (upd_ContractURI upd) (ContractURI c),
       Issuer := assign (upd_Issuer upd) (Issuer c),
       IssuerLogoURL := assign (upd_IssuerLogoURL upd) (IssuerLogoURL c),
       ContractOperator := assign (upd_ContractOperator upd) (ContractOperator c),
       ContractAuthFlags := assign (upd_ContractAuthFlags upd) (ContractAuthFlags c),
       ContractFee := assign (upd_ContractFee upd) (ContractFee c),
       VotingSystems := assign_slice (upd_VotingSystems upd) (VotingSystems c),
       RestrictedQtyAssets := assign (upd_RestrictedQtyAssets upd) (RestrictedQtyAssets c),
       IssuerProposal := assign (upd_IssuerProposal upd) (IssuerProposal c),
       HolderProposal := assign (upd_HolderProposal upd) (HolderProposal c),
       Oracles := assign_slice (upd_Oracles upd) (Oracles c),
       FreezePeriod := assign (upd_FreezePeriod upd) (FreezePeriod c),
       UpdatedAt := now \<rparr>"

text \<open>\<^verbatim>\<open>contract.Update\<close>: any failure of \<^verbatim>\<open>Fetch\<close> is reported as \<^verbatim>\<open>ErrNotFound\<close> and
  nothing is saved.\<close>

definition Update ::
  "contract_db \<Rightarrow> PublicKeyHash \<Rightarrow> UpdateContract \<Rightarrow> Timestamp \<Rightarrow> contract_error + contract_db"
where
  "Update dbConn contractPKH upd now =
    (case Fetch dbConn contractPKH of
       Inl err \<Rightarrow> Inl ErrNotFound
     | Inr c \<Rightarrow> Inr (Save dbConn (apply_update upd now c)))"

text \<open>\<^verbatim>\<open>contract.CanHaveMoreAssets\<close>.\<close>

definition CanHaveMoreAssets :: "Contract \<Rightarrow> bool" where
  "CanHaveMoreAssets ct =
    (if RestrictedQtyAssets ct = 0 then True
     else (let total = length (AssetCodes ct) in total < RestrictedQtyAssets ct))"

section \<open>Transaction builder: the signature hash\<close>

unbundle bit_operations_syntax

text \<open>The parts of \<^verbatim>\<open>wire.MsgTx\<close> that the signature hash reads.\<close>

record OutPoint =
  Hash :: bytes
  Index :: "32 word"

record TxIn =
  PreviousOutPoint :: OutPoint
  SignatureScript :: bytes
  Sequence :: "32 word"

record TxOut =
  Value :: "64 word"
  PkScript :: bytes

record MsgTx =
  Version :: "32 word"
  TxIn :: "TxIn list"
  TxOut :: "TxOut list"
  LockTime :: "32 word"

type_synonym SigHashType = "32 word"

definition SigHashOld :: SigHashType where "SigHashOld = 0x0"
definition SigHashAll :: SigHashType where "SigHashAll = 0x1"
definition SigHashNone :: SigHashType where "SigHashNone = 0x2"
definition SigHashSingle :: SigHashType where "SigHashSingle = 0x3"
definition SigHashAnyOneCanPay :: SigHashType where "SigHashAnyOneCanPay = 0x80"
definition SigHashForkID :: SigHashType where "SigHashForkID = 0x40"
definition sigHashMask :: SigHashType where "sigHashMask = 0x1f"

text \<open>\<^verbatim>\<open>binary.LittleEndian.PutUint32\<close> and \<^verbatim>\<open>PutUint64\<close>: the bytes of the value, lowest
  first.\<close>

definition PutUint32 :: "32 word \<Rightarrow> bytes" where
  "PutUint32 v = map (\<lambda>i. ucast (drop_bit (8 * i) v)) [0, 1, 2, 3]"

definition PutUint64 :: "64 word \<Rightarrow> bytes" where
  "PutUint64 v = map (\<lambda>i. ucast (drop_bit (8 * i) v)) [0, 1, 2, 3, 4, 5, 6, 7]"

text \<open>The functions of \<^verbatim>\<open>pkg/bitcoin\<close> and \<^verbatim>\<open>pkg/wire\<close> that the signature hash calls and
  that are not among the sources. They are parameters of the model: \<^verbatim>\<open>bitcoin.DoubleSha256\<close>,
  \<^verbatim>\<open>wire.WriteVarBytes\<close> (what it appends to the buffer) and \<^verbatim>\<open>TxOut.Serialize\<close> (what
  it appends to the buffer).\<close>

record wire_lib =
  DoubleSha256 :: "bytes \<Rightarrow> bytes"
  WriteVarBytes :: "bytes \<Rightarrow> bytes"
  TxOut_Serialize :: "TxOut \<Rightarrow> bytes"

text \<open>\<^verbatim>\<open>SigHashCache\<close>: three byte slices, \<open>None\<close> for nil.\<close>

record SigHashCache =
  hashPrevOuts :: "bytes option"
  hashSequence :: "bytes option"
  hashOutputs :: "bytes option"

definition HashPrevOuts :: "wire_lib \<Rightarrow> SigHashCache \<Rightarrow> MsgTx \<Rightarrow> bytes \<times> SigHashCache" where
  "HashPrevOuts lib shc tx =
    (case hashPrevOuts shc of
       Some h \<Rightarrow> (h, shc)
     | None \<Rightarrow>
        (let b = concat (map (\<lambda>i. Hash (PreviousOutPoint i) @ PutUint32 (Index (PreviousOutPoint i)))
                     (TxIn tx));
             h = DoubleSha256 lib b
         in (h, shc\<lparr>hashPrevOuts := Some h\<rparr>)))"

definition HashSequence :: "wire_lib \<Rightarrow> SigHashCache \<Rightarrow> MsgTx \<Rightarrow> bytes \<times> SigHashCache" where
  "HashSequence lib shc tx =
    (case hashSequence shc of
       Some h \<Rightarrow> (h, shc)
     | None \<Rightarrow>
        (let b = concat (map (\<lambda>i. PutUint32 (Sequence i)) (TxIn tx));
             h = DoubleSha256 lib b
         in (h, shc\<lparr>hashSequence := Some h\<rparr>)))"

definition HashOutputs :: "wire_lib \<Rightarrow> SigHashCache \<Rightarrow> MsgTx \<Rightarrow> bytes \<times> SigHashCache" where
  "HashOutputs lib shc tx =
    (case hashOutputs shc of
       Some h \<Rightarrow> (h, shc)
     | None \<Rightarrow>
        (let b = concat (map (TxOut_Serialize lib) (TxOut tx));
             h = DoubleSha256 lib b
         in (h, shc\<lparr>hashOutputs := Some h\<rparr>)))"

text \<open>An index expression \<^verbatim>\<open>xs[i]\<close> with an \<^verbatim>\<open>int\<close> index: outside the slice the Go
  runtime panics.\<close>

datatype panic = IndexOutOfRange

definition index_at :: "'a list \<Rightarrow> int \<Rightarrow> panic + 'a" where
  "index_at xs i = (if 0 \<le> i \<and> i < int (length xs) then Inr (xs ! nat i) else Inl IndexOutOfRange)"

definition zeroHash :: bytes where
  "zeroHash = replicate 32 0"

text \<open>The end of \<^verbatim>\<open>signatureHash\<close>: lock time, hash type and the final digest.\<close>

definition sighash_finish ::
  "wire_lib \<Rightarrow> MsgTx \<Rightarrow> SigHashType \<Rightarrow> bytes \<Rightarrow> SigHashCache \<Rightarrow> panic + (bytes option \<times> SigHashCache)"
where
  "sighash_finish lib tx hashType buf hashCache =
    Inr (Some (DoubleSha256 lib (buf @ PutUint32 (LockTime tx) @ PutUint32 (hashType OR SigHashForkID))),
         hashCache)"

text \<open>\<^verbatim>\<open>signatureHash\<close>. The result is the returned slice (\<open>None\<close> for nil) with the cache
  as the call leaves it, or the panic that aborts the call.\<close>

definition signatureHash ::
  "wire_lib \<Rightarrow> MsgTx \<Rightarrow> int \<Rightarrow> bytes \<Rightarrow> 64 word \<Rightarrow> SigHashType \<Rightarrow> SigHashCache
    \<Rightarrow> panic + (bytes option \<times> SigHashCache)"
where
  "signatureHash lib tx index lockScript val hashType hashCache =
    (if index > int (length (TxIn tx)) - 1 then Inr (None, hashCache)
     else
      (let buf0 = PutUint32 (Version tx);
           (buf1, cache1) =
             (if hashType AND SigHashAnyOneCanPay = 0
              then (let (h, c) = HashPrevOuts lib hashCache tx in (buf0 @ h, c))
              else (buf0 @ zeroHash, hashCache));
           (buf2, cache2) =
             (if hashType AND SigHashAnyOneCanPay = 0
                 \<and> hashType AND sigHashMask \<noteq> SigHashSingle
                 \<and> hashType AND sigHashMask \<noteq> SigHashNone
              then (let (h, c) = HashSequence lib cache1 tx in (buf1 @ h, c))
              else (buf1 @ zeroHash, cache1))
       in case index_at (TxIn tx) index of
            Inl p \<Rightarrow> Inl p
          | Inr txin \<Rightarrow>
             (let buf3 = buf2 @ Hash (PreviousOutPoint txin)
                           @ PutUint32 (Index (PreviousOutPoint txin))
                           @ WriteVarBytes lib lockScript
                           @ PutUint64 val
                           @ PutUint32 (Sequence txin)
              in if hashType AND SigHashSingle \<noteq> SigHashSingle
                    \<and> hashType AND SigHashNone \<noteq> SigHashNone
                 then (let (h, c) = HashOutputs lib cache2 tx
                       in sighash_finish lib tx hashType (buf3 @ h) c)
                 else if hashType AND sigHashMask = SigHashSingle
                         \<and> index < int (length (TxOut tx))
                 then (case index_at (TxOut tx) index of
                         Inl p \<Rightarrow> Inl p
                       | Inr out \<Rightarrow>
                          sighash_finish lib tx hashType
                            (buf3 @ DoubleSha256 lib (TxOut_Serialize lib out)) cache2)
                 else sighash_finish lib tx hashType (buf3 @ zeroHash) cache2)))"

section \<open>Bitcoin addresses\<close>

definition addressTypeMainPKH :: byte where "addressTypeMainPKH = 0x00"
definition addressTypeMainSH :: byte where "addressTypeMainSH = 0x05"
definition addressTypeMainMultiPKH :: byte where "addressTypeMainMultiPKH = 0x10"
definition addressTypeMainRPH :: byte where "addressTypeMainRPH = 0x20"
definition addressTypeTestPKH :: byte where "addressTypeTestPKH = 0x6f"
definition addressTypeTestSH :: byte where "addressTypeTestSH = 0xc4"
definition addressTypeTestMultiPKH :: byte where "addressTypeTestMultiPKH = 0xd0"
definition addressTypeTestRPH :: byte where "addressTypeTestRPH = 0xe0"

datatype address_error =
  ErrBadScriptHashLength | ErrBadCheckSum | ErrBadType | ErrUnknownScriptTemplate

datatype Network = MainNet | TestNet

text \<open>The four address types: the hash, or the required count and the public key hashes,
  with the network.\<close>

datatype Address =
    AddressPKH bytes Network
  | AddressSH bytes Network
  | AddressMultiPKH "16 word" "bytes list" Network
  | AddressRPH bytes Network

text \<open>Modelled from the spec: the constant \<^verbatim>\<open>scriptHashLength\<close> and the constructors of
  raw addresses are not among the sources. A public key hash, a script hash and an R puzzle
  hash have 20 bytes, and so has each public key hash of a multi-PKH address; a raw
  address is made of hashes of that length only.\<close>

definition scriptHashLength :: nat where
  "scriptHashLength = 20"

definition NewAddressPKH :: "bytes \<Rightarrow> Network \<Rightarrow> address_error + Address" where
  "NewAddressPKH pkh net =
    (if length pkh \<noteq> scriptHashLength then Inl ErrBadScriptHashLength
     else Inr (AddressPKH pkh net))"

definition NewAddressSH :: "bytes \<Rightarrow> Network \<Rightarrow> address_error + Address" where
  "NewAddressSH sh net =
    (if length sh \<noteq> scriptHashLength then Inl ErrBadScriptHashLength
     else Inr (AddressSH sh net))"

definition NewAddressRPH :: "bytes \<Rightarrow> Network \<Rightarrow> address_error + Address" where
  "NewAddressRPH rph net =
    (if length rph \<noteq> scriptHashLength then Inl ErrBadScriptHashLength
     else Inr (AddressRPH rph net))"

definition NewAddressMultiPKH ::
  "16 word \<Rightarrow> bytes list \<Rightarrow> Network \<Rightarrow> address_error + Address"
where
  "NewAddressMultiPKH required pkhs net =
    (if list_ex (\<lambda>pkh. length pkh \<noteq> scriptHashLength) pkhs then Inl ErrBadScriptHashLength
     else Inr (AddressMultiPKH required pkhs net))"

text \<open>\<^verbatim>\<open>binary.Write\<close> and \<^verbatim>\<open>binary.Read\<close> of a \<^verbatim>\<open>uint16\<close>, little endian.\<close>

definition PutUint16 :: "16 word \<Rightarrow> bytes" where
  "PutUint16 v = [ucast v, ucast (drop_bit 8 v)]"

definition Uint16 :: "bytes \<Rightarrow> 16 word" where
  "Uint16 b = word_cat (b ! 1) (b ! 0)"

text \<open>The method \<^verbatim>\<open>bytes\<close> of the four address types: the type byte of the network, then
  the address data.\<close>

fun Address_bytes :: "Address \<Rightarrow> bytes" where
  "Address_bytes (AddressPKH pkh net) =
    (case net of MainNet \<Rightarrow> addressTypeMainPKH | _ \<Rightarrow> addressTypeTestPKH) # pkh"
| "Address_bytes (AddressSH sh net) =
    (case net of MainNet \<Rightarrow> addressTypeMainSH | _ \<Rightarrow> addressTypeTestSH) # sh"
| "Address_bytes (AddressMultiPKH required pkhs net) =
    [case net of MainNet \<Rightarrow> addressTypeMainMultiPKH | _ \<Rightarrow> addressTypeTestMultiPKH]
      @ PutUint16 required @ concat pkhs"
| "Address_bytes (AddressRPH rph net) =
    (case net of MainNet \<Rightarrow> addressTypeMainRPH | _ \<Rightarrow> addressTypeTestRPH) # rph"

text \<open>The loop of \<^verbatim>\<open>decodeAddressBytes\<close> that cuts the public key hashes of a multi-PKH
  address: \<^verbatim>\<open>for len(b) >= 0 { if len(b) < scriptHashLength { return nil,
  ErrBadScriptHashLength }; pkhs = append(pkhs, b[:scriptHashLength]); b =
  b[scriptHashLength:] }\<close>. \<open>Inr\<close> is the list of hashes with which the loop would be
  left.\<close>

function decode_pkhs :: "bytes \<Rightarrow> bytes list \<Rightarrow> address_error + bytes list" where
  "decode_pkhs b pkhs =
    (if 0 \<le> int (length b)
     then (if length b < scriptHashLength then Inl ErrBadScriptHashLength
           else decode_pkhs (drop scriptHashLength b) (pkhs @ [take scriptHashLength b]))
     else Inr pkhs)"
  by pat_completeness auto
termination
  by (relation "measure (\<lambda>(b, pkhs). length b)") (auto simp: scriptHashLength_def)

declare decode_pkhs.simps [simp del]

text \<open>The result of \<^verbatim>\<open>decodeAddressBytes\<close>: an address, an error, or the panic of a slice
  expression out of range. The capacity of the slice is taken to be its length, so that
  \<^verbatim>\<open>b[:2]\<close> panics on a slice \<^verbatim>\<open>b\<close> shorter than two bytes.\<close>

datatype 'a decoded = Decoded 'a | DecodeError address_error | DecodePanic

definition of_result :: "address_error + 'a \<Rightarrow> 'a decoded" where
  "of_result r = (case r of Inl e \<Rightarrow> DecodeError e | Inr a \<Rightarrow> Decoded a)"

definition decode_multi :: "bytes \<Rightarrow> Network \<Rightarrow> Address decoded" where
  "decode_multi b net =
    (let b1 = tl b in
     if length b1 < 2 then DecodePanic
     else
      (let required = Uint16 (take 2 b1);
           b2 = drop 2 b1
       in case decode_pkhs b2 [] of
            Inl e \<Rightarrow> DecodeError e
          | Inr pkhs \<Rightarrow> of_result (NewAddressMultiPKH required pkhs net)))"

definition decodeAddressBytes :: "bytes \<Rightarrow> Address decoded" where
  "decodeAddressBytes b =
    (if length b < 2 then DecodeError ErrBadType
     else if hd b = addressTypeMainPKH then of_result (NewAddressPKH (tl b) MainNet)
     else if hd b = addressTypeMainSH then of_result (NewAddressSH (tl b) MainNet)
     else if hd b = addressTypeMainMultiPKH then decode_multi b MainNet
     else if hd b = addressTypeMainRPH then of_result (NewAddressRPH (tl b) MainNet)
     else if hd b = addressTypeTestPKH then of_result (NewAddressPKH (tl b) TestNet)
     else if hd b = addressTypeTestSH then of_result (NewAddressSH (tl b) TestNet)
     else if hd b = addressTypeTestMultiPKH then decode_multi b TestNet
     else if hd b = addressTypeTestRPH then of_result (NewAddressRPH (tl b) TestNet)
     else DecodeError ErrBadType)"

text \<open>\<^verbatim>\<open>Base58\<close>, \<^verbatim>\<open>Base58Decode\<close> and \<^verbatim>\<open>DoubleSha256\<close> of \<^verbatim>\<open>pkg/bitcoin\<close> are not among the
  sources; they are parameters of the text form of an address. The digest has 32 bytes,
  of which the checksum is the first four.\<close>

record base58_lib =
  Base58 :: "bytes \<Rightarrow> string"
  Base58Decode :: "string \<Rightarrow> bytes"
  Sha256d :: "bytes \<Rightarrow> bytes"

definition encodeAddress :: "base58_lib \<Rightarrow> bytes \<Rightarrow> string" where
  "encodeAddress lib b =
    (let checksum = Sha256d lib b;
         address = b @ take 4 checksum
     in Base58 lib address)"

definition decodeAddress :: "base58_lib \<Rightarrow> string \<Rightarrow> address_error + bytes" where
  "decodeAddress lib address =
    (let b = Base58Decode lib address in
     if length b < 5 then Inl ErrBadCheckSum
     else
      (let checksum = Sha256d lib (take (length b - 4) b) in
       if take 4 checksum \<noteq> drop (length b - 4) b then Inl ErrBadCheckSum
       else Inr (take (length b - 4) b)))"

definition Address_String :: "base58_lib \<Rightarrow> Address \<Rightarrow> string" where
  "Address_String lib a = encodeAddress lib (Address_bytes a)"

definition DecodeAddress :: "base58_lib \<Rightarrow> string \<Rightarrow> Address decoded" where
  "DecodeAddress lib address =
    (case decodeAddress lib address of
       Inl err \<Rightarrow> DecodeError err
     | Inr b \<Rightarrow> decodeAddressBytes b)"

section \<open>Request handlers: messages, state and responses\<close>

text \<open>The rejection codes \<^verbatim>\<open>actions.Rejections...\<close> that the handlers send; the constants
  are those of the protocol library, \<^verbatim>\<open>RejectionsSuccess\<close> being the code 0 of a request
  that the codec accepted.\<close>

datatype rejections =
    RejectionsSuccess | RejectionsMsgMalformed | RejectionsTxMalformed
  | RejectionsContractExists | RejectionsContractMoved | RejectionsContractFrozen
  | RejectionsContractExpired | RejectionsContractRevision | RejectionsContractPermissions
  | RejectionsContractFixedQuantity | RejectionsContractNotPermitted
  | RejectionsContractAssetQtyReduction | RejectionsContractBothOperatorsRequired
  | RejectionsNotAdministration | RejectionsNotOperator
  | RejectionsAssetCodeExists | RejectionsAssetNotFound | RejectionsAssetRevision
  | RejectionsAssetNotPermitted | RejectionsAssetPermissions
  | RejectionsVoteNotFound | RejectionsInsufficientQuantity | RejectionsInvalidSignature

type_synonym Amendment = bytes

record ContractOffer =
  co_ContractName :: string
  co_BodyOfAgreementType :: nat
  co_BodyOfAgreement :: bytes
  co_ContractExpiration :: Timestamp
  co_MasterAddress :: bytes
  co_ContractPermissions :: bytes
  co_VotingSystems :: "VotingSystem list"
  co_ContractOperatorIncluded :: bool
  co_ContractFee :: nat

record ContractFormation =
  cf_ContractName :: string
  cf_AdminAddress :: bytes
  cf_OperatorAddress :: bytes
  cf_ContractFee :: nat
  cf_ContractPermissions :: bytes
  cf_VotingSystems :: "VotingSystem list"
  cf_RestrictedQtyAssets :: nat
  cf_AdminIdentityCertificates :: "bytes list"
  cf_ContractRevision :: nat
  cf_Timestamp :: Timestamp

record ContractAmendment =
  cam_ChangeAdministrationAddress :: bool
  cam_ChangeOperatorAddress :: bool
  cam_ContractRevision :: nat
  cam_Amendments :: "Amendment list"
  cam_RefTxID :: bytes

record AssetDefinition =
  ad_AssetPermissions :: bytes
  ad_AssetType :: string
  ad_TokenQty :: nat
  ad_AssetPayload :: bytes

record AssetCreation =
  ac_AssetCode :: bytes
  ac_AssetIndex :: nat
  ac_AssetPermissions :: bytes
  ac_AssetType :: string
  ac_TokenQty :: nat
  ac_AssetPayload :: bytes
  ac_AssetRevision :: nat
  ac_Timestamp :: Timestamp

record AssetModification =
  am_AssetCode :: bytes
  am_AssetRevision :: nat
  am_Amendments :: "Amendment list"
  am_RefTxID :: bytes

record Result =
  res_VoteTxId :: bytes
  res_ProposedAmendments :: "Amendment list"

text \<open>The messages of the enforcement handlers, which are written against the earlier
  \<^verbatim>\<open>pkg/protocol\<close>: addresses are public key hashes there.\<close>

record TargetAddress =
  ta_Address :: PublicKeyHash
  ta_Quantity :: nat

record QuantityIndex =
  qi_Index :: "16 word"
  qi_Quantity :: nat

datatype compliance_action =
    ComplianceActionFreeze | ComplianceActionThaw | ComplianceActionConfiscation
  | ComplianceActionReconciliation | ComplianceActionUnknown byte

record Order =
  ord_ComplianceAction :: compliance_action
  ord_AssetCode :: AssetCode
  ord_TargetAddresses :: "TargetAddress list"
  ord_FreezeTxId :: bytes
  ord_FreezePeriod :: Timestamp
  ord_DepositAddress :: PublicKeyHash
  ord_AuthorityIncluded :: bool
  ord_AuthorityPublicKey :: bytes
  ord_SignatureAlgorithm :: nat
  ord_OrderSignature :: bytes
  ord_BitcoinDispersions :: "QuantityIndex list"

record Freeze =
  fr_AssetCode :: AssetCode
  fr_Quantities :: "QuantityIndex list"
  fr_FreezePeriod :: Timestamp
  fr_Timestamp :: Timestamp

record Thaw =
  th_FreezeTxId :: bytes
  th_Timestamp :: Timestamp

record Confiscation =
  cn_AssetCode :: AssetCode
  cn_Quantities :: "QuantityIndex list"
  cn_DepositQty :: nat
  cn_Timestamp :: Timestamp

record Reconciliation =
  rc_AssetCode :: AssetCode
  rc_Quantities :: "QuantityIndex list"
  rc_Timestamp :: Timestamp

text \<open>\<^verbatim>\<open>itx.MsgProto\<close>: the message of a transaction, by its type.\<close>

datatype message =
    MsgContractOffer ContractOffer
  | MsgContractFormation ContractFormation
  | MsgContractAmendment ContractAmendment
  | MsgAssetDefinition AssetDefinition
  | MsgAssetCreation AssetCreation
  | MsgAssetModification AssetModification
  | MsgResult Result
  | MsgOrder Order
  | MsgFreeze Freeze
  | MsgThaw Thaw
  | MsgConfiscation Confiscation
  | MsgReconciliation Reconciliation
  | MsgOther action_code

text \<open>\<^verbatim>\<open>inspector.Transaction\<close>: of an input and of an output the handlers read the
  address.\<close>

record Input =
  in_Address :: RawAddress

record Output =
  out_Address :: RawAddress

record Transaction =
  itx_Hash :: bytes
  itx_MsgProto :: message
  itx_Inputs :: "Input list"
  itx_Outputs :: "Output list"
  itx_RejectCode :: rejections

record Vote =
  vt_Type :: nat
  vt_VoteSystem :: nat
  vt_AssetCode :: AssetCode
  vt_ProposedAmendments :: "Amendment list"
  vt_CompletedAt :: Timestamp
  vt_Result :: string

record Asset =
  as_Revision :: nat
  as_AssetType :: string
  as_AssetPermissions :: bytes
  as_TokenQty :: nat
  as_AssetPayload :: bytes
  as_Holdings :: "(PublicKeyHash \<times> nat) list"

text \<open>Modelled from the spec: the package \<^verbatim>\<open>internal/holdings\<close> is not among the
  sources. A holding has a finalized balance and pending credits and debits, each keyed by
  the id of the request transaction and carrying an amount and a timestamp.\<close>

record Holding =
  h_Address :: RawAddress
  h_FinalizedBalance :: nat
  h_PendingCredits :: "(bytes \<times> nat \<times> Timestamp) list"
  h_PendingDebits :: "(bytes \<times> nat \<times> Timestamp) list"

text \<open>The stores behind \<^verbatim>\<open>MasterDB\<close>, one map per kind of record and keyed as the blob
  keys are: contracts by contract address, assets by contract address and asset code,
  holdings by contract address, asset code and party, votes by contract address and vote
  transaction, saved transactions by their hash, contract formations by contract
  address. \<^verbatim>\<open>TxCache\<close> is the cache of inspector transactions of the enforcement
  handlers, by hash. An asset carries the balances of its holdings, by party.\<close>

record DB =
  db_contracts :: "RawAddress \<rightharpoonup> Contract"
  db_assets :: "RawAddress \<times> AssetCode \<rightharpoonup> Asset"
  db_holdings :: "RawAddress \<times> AssetCode \<times> RawAddress \<rightharpoonup> Holding"
  db_votes :: "RawAddress \<times> bytes \<rightharpoonup> Vote"
  db_txs :: "bytes \<rightharpoonup> Transaction"
  db_TxCache :: "bytes \<rightharpoonup> Transaction"
  db_formations :: "RawAddress \<rightharpoonup> ContractFormation"

text \<open>What a handler has asked of the response writer: the calls of \<^verbatim>\<open>w.AddOutput\<close>,
  \<^verbatim>\<open>w.AddChangeOutput\<close> and \<^verbatim>\<open>w.AddContractFee\<close>, in order.\<close>

datatype w_call =
    AddOutput RawAddress nat
  | AddChangeOutput RawAddress
  | AddContractFee nat

text \<open>How a handler ends: with \<^verbatim>\<open>node.RespondReject\<close> and a code (and a text, for
  \<^verbatim>\<open>RespondRejectText\<close>), with \<^verbatim>\<open>node.RespondSuccess\<close> on the outputs asked of the writer
  and the response message, with an error and no response, with neither (it
  returns nil), or with a panic of the Go runtime.\<close>

datatype 'r response =
    RespondReject 'r
  | RespondRejectText 'r string
  | RespondSuccess "w_call list" message
  | ReturnError string
  | ReturnNil
  | Panicked

text \<open>The functions of the protocol library, of \<^verbatim>\<open>node\<close> and of the other packages that
  the handlers call and that are not among the sources; they are parameters of the model.
  A validation is the predicate that it returns no error; a conversion or a parser returns
  \<open>None\<close> for its error. \<^verbatim>\<open>applyAssetAmendments\<close> and \<^verbatim>\<open>applyContractAmendments\<close> are
  among the sources, but do their work through \<^verbatim>\<open>ApplyAmendment\<close> and \<^verbatim>\<open>Validate\<close> of the
  protocol library: they return the amended message, or an error that carries a
  rejection code (\<^verbatim>\<open>node.NewError\<close>) or none.\<close>

datatype asset_payload = Membership string | OtherPayload string

record handler_lib =
  PermissionsFromBytes :: "bytes \<Rightarrow> nat \<Rightarrow> bool"
  DecodeRawAddress :: "bytes \<Rightarrow> bool"
  ValidateVotingSystem :: "VotingSystem \<Rightarrow> bool"
  AssetCodeFromContract :: "RawAddress \<Rightarrow> nat \<Rightarrow> AssetCode"
  assets_Deserialize :: "string \<Rightarrow> bytes \<Rightarrow> asset_payload option"
  payload_Validate :: "asset_payload \<Rightarrow> bool"
  Convert_ContractOffer :: "ContractOffer \<Rightarrow> ContractFormation option"
  Convert_AssetDefinition :: "AssetDefinition \<Rightarrow> AssetCreation option"
  Convert_Asset :: "Asset \<Rightarrow> AssetCreation option"
  NewHash32 :: "bytes \<Rightarrow> bytes option"
  applyAssetAmendments ::
    "AssetCreation \<Rightarrow> VotingSystem list \<Rightarrow> Amendment list \<Rightarrow> bool \<Rightarrow> nat \<Rightarrow> nat
      \<Rightarrow> rejections option + AssetCreation"
  applyContractAmendments ::
    "ContractFormation \<Rightarrow> Amendment list \<Rightarrow> bool \<Rightarrow> nat \<Rightarrow> nat
      \<Rightarrow> rejections option + ContractFormation"
  validateContractAmendOracleSig :: "ContractFormation \<Rightarrow> bytes \<Rightarrow> bool"
  RespondSuccess_ok :: "Transaction \<Rightarrow> w_call list \<Rightarrow> message \<Rightarrow> bool"

definition slice_len :: "'a list option \<Rightarrow> nat" where
  "slice_len s = (case s of None \<Rightarrow> 0 | Some xs \<Rightarrow> length xs)"

text \<open>\<^verbatim>\<open>IsEmpty\<close> of a raw address and \<^verbatim>\<open>IsZero\<close> of an asset code.\<close>

definition IsEmpty :: "RawAddress \<Rightarrow> bool" where
  "IsEmpty a = (a = [])"

definition IsZero :: "AssetCode \<Rightarrow> bool" where
  "IsZero c = list_all (\<lambda>b. b = 0) c"

text \<open>\<^verbatim>\<open>contract.Retrieve\<close> returns what \<^verbatim>\<open>Fetch\<close> returns.\<close>

definition Retrieve :: "contract_db \<Rightarrow> RawAddress \<Rightarrow> contract_error + Contract" where
  "Retrieve dbConn contractPKH =
    (case Fetch dbConn contractPKH of Inl err \<Rightarrow> Inl err | Inr contract \<Rightarrow> Inr contract)"

text \<open>\<^verbatim>\<open>contract.IsOperator\<close> of \<^verbatim>\<open>internal/contract/contract.go\<close>, on public key
  hashes.\<close>

definition IsOperator :: "Contract \<Rightarrow> PublicKeyHash \<Rightarrow> bool" where
  "IsOperator ct pkh = (IssuerPKH ct = pkh \<or> OperatorPKH ct = pkh)"

text \<open>Modelled from the spec: the \<^verbatim>\<open>contract.IsOperator\<close> that the asset and contract
  handlers call takes an address and is not among the sources. The first input address
  must match the administration or the operator address.\<close>

definition IsOperatorAddress :: "Contract \<Rightarrow> RawAddress \<Rightarrow> bool" where
  "IsOperatorAddress ct address =
    (address = AdministrationAddress ct \<or> address = OperatorAddress ct)"

text \<open>Modelled from the spec: \<^verbatim>\<open>asset.Retrieve\<close>, \<^verbatim>\<open>vote.Retrieve\<close>,
  \<^verbatim>\<open>transactions.AddTx\<close>, \<^verbatim>\<open>transactions.GetTx\<close> and \<^verbatim>\<open>contract.SaveContractFormation\<close>
  are not among the sources. They read and write the record under its key; a read of a key
  that holds nothing is the not-found error of the package.\<close>

datatype store_error = StoreErrNotFound

definition asset_Retrieve :: "DB \<Rightarrow> RawAddress \<Rightarrow> AssetCode \<Rightarrow> store_error + Asset option" where
  "asset_Retrieve db address assetCode =
    (case db_assets db (address, assetCode) of
       None \<Rightarrow> Inl StoreErrNotFound
     | Some a \<Rightarrow> Inr (Some a))"

definition vote_Retrieve :: "DB \<Rightarrow> RawAddress \<Rightarrow> bytes \<Rightarrow> store_error + Vote" where
  "vote_Retrieve db address voteTxId =
    (case db_votes db (address, voteTxId) of None \<Rightarrow> Inl StoreErrNotFound | Some v \<Rightarrow> Inr v)"

definition GetTx :: "DB \<Rightarrow> bytes \<Rightarrow> store_error + Transaction" where
  "GetTx db txid = (case db_txs db txid of None \<Rightarrow> Inl StoreErrNotFound | Some t \<Rightarrow> Inr t)"

definition AddTx :: "DB \<Rightarrow> Transaction \<Rightarrow> DB" where
  "AddTx db itx = db\<lparr>db_txs := (db_txs db)(itx_Hash itx \<mapsto> itx)\<rparr>"

definition SaveContractFormation :: "DB \<Rightarrow> RawAddress \<Rightarrow> ContractFormation \<Rightarrow> DB" where
  "SaveContractFormation db address cf = db\<lparr>db_formations := (db_formations db)(address \<mapsto> cf)\<rparr>"

definition FetchContractFormation :: "DB \<Rightarrow> RawAddress \<Rightarrow> store_error + ContractFormation" where
  "FetchContractFormation db address =
    (case db_formations db address of None \<Rightarrow> Inl StoreErrNotFound | Some cf \<Rightarrow> Inr cf)"

text \<open>Modelled from the spec: the operations of \<^verbatim>\<open>internal/holdings\<close>. \<^verbatim>\<open>GetHolding\<close>
  reads the holding of a party, which is an empty holding before its first credit.
  \<^verbatim>\<open>AddDebit\<close> rejects if the finalized balance less the sum of the pending debits is
  below the amount, and attaches otherwise a pending debit keyed by the request
  transaction; \<^verbatim>\<open>AddDeposit\<close> attaches a pending credit. \<^verbatim>\<open>Save\<close> writes the holding
  under its key.\<close>

datatype holdings_error = ErrInsufficientHoldings

definition GetHolding :: "DB \<Rightarrow> RawAddress \<Rightarrow> AssetCode \<Rightarrow> RawAddress \<Rightarrow> Holding" where
  "GetHolding db contractAddress assetCode address =
    (case db_holdings db (contractAddress, assetCode, address) of
       Some h \<Rightarrow> h
     | None \<Rightarrow> \<lparr> h_Address = address, h_FinalizedBalance = 0,
                 h_PendingCredits = [], h_PendingDebits = [] \<rparr>)"

definition pending_sum :: "(bytes \<times> nat \<times> Timestamp) list \<Rightarrow> nat" where
  "pending_sum ps = sum_list (map (\<lambda>p. fst (snd p)) ps)"

definition attach ::
  "bytes \<Rightarrow> nat \<Rightarrow> Timestamp \<Rightarrow> (bytes \<times> nat \<times> Timestamp) list \<Rightarrow> (bytes \<times> nat \<times> Timestamp) list"
where
  "attach txid amount ts ps = (txid, amount, ts) # filter (\<lambda>p. fst p \<noteq> txid) ps"

definition AddDebit :: "Holding \<Rightarrow> bytes \<Rightarrow> nat \<Rightarrow> Timestamp \<Rightarrow> holdings_error + Holding" where
  "AddDebit h txid amount ts =
    (if int (h_FinalizedBalance h) - int (pending_sum (h_PendingDebits h)) < int amount
     then Inl ErrInsufficientHoldings
     else Inr (h\<lparr>h_PendingDebits := attach txid amount ts (h_PendingDebits h)\<rparr>))"

definition AddDeposit :: "Holding \<Rightarrow> bytes \<Rightarrow> nat \<Rightarrow> Timestamp \<Rightarrow> holdings_error + Holding" where
  "AddDeposit h txid amount ts =
    Inr (h\<lparr>h_PendingCredits := attach txid amount ts (h_PendingCredits h)\<rparr>)"

definition holdings_Save :: "DB \<Rightarrow> RawAddress \<Rightarrow> AssetCode \<Rightarrow> Holding \<Rightarrow> DB" where
  "holdings_Save db contractAddress assetCode h =
    db\<lparr>db_holdings := (db_holdings db)((contractAddress, assetCode, h_Address h) \<mapsto> h)\<rparr>"

subsection \<open>The check of the proposal behind an amendment\<close>

text \<open>The block \<^verbatim>\<open>if len(msg.RefTxID) != 0 { ... }\<close> of \<^verbatim>\<open>Contract.AmendmentRequest\<close> and of
  \<^verbatim>\<open>Asset.ModificationRequest\<close>. The two differ in one test on the asset code of the vote:
  for a contract amendment the vote must have none, for an asset modification
  (\<open>Some\<close> the asset code of the message) it must have this asset code. The result is the
  response with which the handler returns, or \<^verbatim>\<open>proposed\<close>, \<^verbatim>\<open>proposalType\<close> and
  \<^verbatim>\<open>votingSystem\<close>.\<close>

definition check_proposal ::
  "handler_lib \<Rightarrow> DB \<Rightarrow> RawAddress \<Rightarrow> bytes \<Rightarrow> Amendment list \<Rightarrow> bytes option
    \<Rightarrow> rejections response + (bool \<times> nat \<times> nat)"
where
  "check_proposal lib db rk RefTxID Amendments msgAssetCode =
    (if length RefTxID = 0 then Inr (False, 0, 0)
     else case NewHash32 lib RefTxID of
       None \<Rightarrow> Inl (ReturnError ''Failed to convert protocol.TxId to Hash32'')
     | Some refTxId \<Rightarrow>
        (case GetTx db refTxId of
           Inl err \<Rightarrow> Inl (RespondReject RejectionsMsgMalformed)
         | Inr voteResultTx \<Rightarrow>
            (case itx_MsgProto voteResultTx of
               MsgResult voteResult \<Rightarrow>
                (case vote_Retrieve db rk (res_VoteTxId voteResult) of
                   Inl err \<Rightarrow> Inl (RespondReject RejectionsVoteNotFound)
                 | Inr vt \<Rightarrow>
                    if vt_CompletedAt vt = 0 then Inl (RespondReject RejectionsMsgMalformed)
                    else if vt_Result vt \<noteq> ''A'' then Inl (RespondReject RejectionsMsgMalformed)
                    else if length (vt_ProposedAmendments vt) = 0
                      then Inl (RespondReject RejectionsMsgMalformed)
                    else if (case msgAssetCode of
                               None \<Rightarrow> \<not> IsZero (vt_AssetCode vt)
                             | Some c \<Rightarrow> IsZero (vt_AssetCode vt) \<or> c \<noteq> vt_AssetCode vt)
                      then Inl (RespondReject RejectionsMsgMalformed)
                    else if length (res_ProposedAmendments voteResult) \<noteq> length Amendments
                      then Inl (RespondReject RejectionsMsgMalformed)
                    else if res_ProposedAmendments voteResult \<noteq> Amendments
                      then Inl (RespondReject RejectionsMsgMalformed)
                    else Inr (True, vt_Type vt, vt_VoteSystem vt))
             | _ \<Rightarrow> Inl (RespondReject RejectionsMsgMalformed))))"

subsection \<open>\<^verbatim>\<open>Asset.DefinitionRequest\<close>\<close>

text \<open>The end of the handler, once the request is accepted: the asset creation is the
  converted definition with the time of the server, the generated asset code and the asset
  index; the request transaction is saved and the response sent.\<close>

definition DefinitionRequest_accept ::
  "handler_lib \<Rightarrow> DB \<Rightarrow> Transaction \<Rightarrow> RawAddress \<Rightarrow> Timestamp \<Rightarrow> AssetDefinition \<Rightarrow> Contract
    \<Rightarrow> AssetCode \<Rightarrow> rejections response \<times> DB"
where
  "DefinitionRequest_accept lib db itx rk now msg ct assetCode =
    (case Convert_AssetDefinition lib msg of
       None \<Rightarrow> (ReturnError ''Failed to convert'', db)
     | Some ac0 \<Rightarrow>
        (let ac = ac0\<lparr> ac_Timestamp := now, ac_AssetCode := assetCode,
                        ac_AssetIndex := length (AssetCodes ct) \<rparr>;
             w = [AddOutput rk 0, AddContractFee (ContractFee ct)];
             db1 = AddTx db itx
         in if RespondSuccess_ok lib itx w (MsgAssetCreation ac)
            then (RespondSuccess w (MsgAssetCreation ac), db1)
            else (ReturnError ''Failed to respond'', db1)))"

definition DefinitionRequest ::
  "handler_lib \<Rightarrow> DB \<Rightarrow> Transaction \<Rightarrow> RawAddress \<Rightarrow> Timestamp \<Rightarrow> rejections response \<times> DB"
where
  "DefinitionRequest lib db itx rk now =
    (case itx_MsgProto itx of
       MsgAssetDefinition msg \<Rightarrow>
        if itx_RejectCode itx \<noteq> RejectionsSuccess
        then (RespondReject (itx_RejectCode itx), db)
        else
         (case Retrieve (db_contracts db) rk of
            Inl err \<Rightarrow> (ReturnError ''Failed to retrieve contract'', db)
          | Inr ct \<Rightarrow>
             if \<not> IsEmpty (MovedTo ct) then (RespondReject RejectionsContractMoved, db)
             else if FreezePeriod ct > now then (RespondReject RejectionsContractFrozen, db)
             else if ContractExpiration ct \<noteq> 0 \<and> ContractExpiration ct < now
               then (RespondReject RejectionsContractExpired, db)
             else if \<not> PermissionsFromBytes lib (ad_AssetPermissions msg)
                        (slice_len (VotingSystems ct))
               then (RespondReject RejectionsMsgMalformed, db)
             else
              (case index_at (itx_Inputs itx) 0 of
                 Inl p \<Rightarrow> (Panicked, db)
               | Inr input0 \<Rightarrow>
                  if in_Address input0 \<noteq> AdministrationAddress ct
                  then (RespondReject RejectionsNotAdministration, db)
                  else
                   (let assetCode = AssetCodeFromContract lib rk (length (AssetCodes ct)) in
                    case asset_Retrieve db rk assetCode of
                      Inr a \<Rightarrow> (RespondReject RejectionsAssetCodeExists, db)
                    | Inl err \<Rightarrow>
                       if err \<noteq> StoreErrNotFound
                       then (ReturnError ''Failed to retrieve asset'', db)
                       else if \<not> CanHaveMoreAssets ct
                         then (RespondReject RejectionsContractFixedQuantity, db)
                       else
                        (case assets_Deserialize lib (ad_AssetType msg) (ad_AssetPayload msg) of
                           None \<Rightarrow> (RespondReject RejectionsMsgMalformed, db)
                         | Some assetPayload \<Rightarrow>
                            if \<not> payload_Validate lib assetPayload
                            then (RespondReject RejectionsMsgMalformed, db)
                            else if ad_AssetType msg = ''MEM'' \<and> \<not> IsZero (AdminMemberAsset ct)
                            then
                             (case assetPayload of
                                Membership MembershipClass \<Rightarrow>
                                 if MembershipClass = ''Owner''
                                    \<or> MembershipClass = ''Administrator''
                                 then (RespondReject RejectionsContractNotPermitted, db)
                                 else DefinitionRequest_accept lib db itx rk now msg ct assetCode
                              | _ \<Rightarrow> (RespondReject RejectionsMsgMalformed, db))
                            else DefinitionRequest_accept lib db itx rk now msg ct assetCode))))
     | _ \<Rightarrow> (ReturnError ''Could not assert as *protocol.AssetDefinition'', db))"

subsection \<open>\<^verbatim>\<open>Asset.ModificationRequest\<close>\<close>

text \<open>The end of the handler: the outputs, the saved request, the response, and then, if the
  token quantity changes, the saved holding of the administration.\<close>

definition ModificationRequest_respond ::
  "handler_lib \<Rightarrow> DB \<Rightarrow> Transaction \<Rightarrow> RawAddress \<Rightarrow> Contract \<Rightarrow> AssetCode \<Rightarrow> AssetCreation
    \<Rightarrow> bool \<Rightarrow> Holding \<Rightarrow> rejections response \<times> DB"
where
  "ModificationRequest_respond lib db itx rk ct assetCode ac updateHoldings h =
    (let w = [AddOutput rk 0, AddContractFee (ContractFee ct)];
         db1 = AddTx db itx
     in if \<not> RespondSuccess_ok lib itx w (MsgAssetCreation ac)
        then (ReturnError ''Failed to respond'', db1)
        else if updateHoldings
          then (RespondSuccess w (MsgAssetCreation ac), holdings_Save db1 rk assetCode h)
        else (RespondSuccess w (MsgAssetCreation ac), db1))"

text \<open>The part of the handler from \<^verbatim>\<open>if ac.TokenQty != as.TokenQty\<close> on. \<open>ac\<close> is the asset
  creation after the amendments, \<open>as\<close> the stored asset. The holding of the administration
  is read and debited or credited by the difference of the token quantities.\<close>

definition ModificationRequest_holdings ::
  "handler_lib \<Rightarrow> DB \<Rightarrow> Transaction \<Rightarrow> RawAddress \<Rightarrow> Timestamp \<Rightarrow> Contract \<Rightarrow> Asset
    \<Rightarrow> AssetCode \<Rightarrow> AssetCreation \<Rightarrow> rejections response \<times> DB"
where
  "ModificationRequest_holdings lib db itx rk now ct as assetCode ac =
    (let h = GetHolding db rk assetCode (AdministrationAddress ct);
         txid = itx_Hash itx
     in if ac_TokenQty ac \<noteq> as_TokenQty as
        then
         (if ac_TokenQty ac < as_TokenQty as
          then (case AddDebit h txid (as_TokenQty as - ac_TokenQty ac) now of
                  Inl err \<Rightarrow>
                   if err = ErrInsufficientHoldings
                   then (RespondReject RejectionsInsufficientQuantity, db)
                   else (ReturnError ''Failed to reduce holdings'', db)
                | Inr h' \<Rightarrow> ModificationRequest_respond lib db itx rk ct assetCode ac True h')
          else (case AddDeposit h txid (ac_TokenQty ac - as_TokenQty as) now of
                  Inl err \<Rightarrow> (ReturnError ''Failed to increase holdings'', db)
                | Inr h' \<Rightarrow> ModificationRequest_respond lib db itx rk ct assetCode ac True h'))
        else ModificationRequest_respond lib db itx rk ct assetCode ac False h)"

definition ModificationRequest ::
  "handler_lib \<Rightarrow> DB \<Rightarrow> Transaction \<Rightarrow> RawAddress \<Rightarrow> Timestamp \<Rightarrow> rejections response \<times> DB"
where
  "ModificationRequest lib db itx rk now =
    (case itx_MsgProto itx of
       MsgAssetModification msg \<Rightarrow>
        if itx_RejectCode itx \<noteq> RejectionsSuccess
        then (RespondReject (itx_RejectCode itx), db)
        else
         (case Retrieve (db_contracts db) rk of
            Inl err \<Rightarrow> (ReturnError ''Failed to retrieve contract'', db)
          | Inr ct \<Rightarrow>
             if \<not> IsEmpty (MovedTo ct) then (RespondReject RejectionsContractMoved, db)
             else
              (case index_at (itx_Inputs itx) 0 of
                 Inl p \<Rightarrow> (Panicked, db)
               | Inr input0 \<Rightarrow>
                  if \<not> IsOperatorAddress ct (in_Address input0)
                  then (RespondReject RejectionsNotOperator, db)
                  else
                   (let assetCode = am_AssetCode msg in
                    case asset_Retrieve db rk assetCode of
                      Inl err \<Rightarrow> (ReturnError ''Failed to retrieve asset'', db)
                    | Inr None \<Rightarrow> (RespondReject RejectionsAssetNotFound, db)
                    | Inr (Some as) \<Rightarrow>
                       if as_Revision as \<noteq> am_AssetRevision msg
                       then (RespondReject RejectionsAssetRevision, db)
                       else
                        (case check_proposal lib db rk (am_RefTxID msg) (am_Amendments msg)
                                (Some (am_AssetCode msg)) of
                           Inl r \<Rightarrow> (r, db)
                         | Inr (proposed, proposalType, votingSystem) \<Rightarrow>
                            (case Convert_Asset lib as of
                               None \<Rightarrow>
                                (ReturnError
                                  ''Failed to convert state asset to asset creation'', db)
                             | Some ac0 \<Rightarrow>
                                (let ac1 = ac0\<lparr> ac_AssetRevision := as_Revision as + 1,
                                                 ac_Timestamp := now,
                                                 ac_AssetCode := am_AssetCode msg \<rparr>
                                 in case applyAssetAmendments lib ac1
                                           (case VotingSystems ct of None \<Rightarrow> [] | Some vs \<Rightarrow> vs)
                                           (am_Amendments msg) proposed proposalType
                                           votingSystem of
                                      Inl (Some code) \<Rightarrow> (RespondReject code, db)
                                    | Inl None \<Rightarrow> (RespondReject RejectionsMsgMalformed, db)
                                    | Inr ac \<Rightarrow>
                                       ModificationRequest_holdings lib db itx rk now ct as
                                         assetCode ac))))))
     | _ \<Rightarrow> (ReturnError ''Could not assert as *protocol.AssetModification'', db))"

subsection \<open>\<^verbatim>\<open>Contract.OfferRequest\<close>\<close>

text \<open>The end of the handler, once the offer is accepted: the formation is the converted
  offer with the administration (and operator) address of the inputs, revision 0 and the
  time of the server.\<close>

definition OfferRequest_accept ::
  "handler_lib \<Rightarrow> DB \<Rightarrow> Transaction \<Rightarrow> RawAddress \<Rightarrow> Timestamp \<Rightarrow> ContractOffer
    \<Rightarrow> rejections response \<times> DB"
where
  "OfferRequest_accept lib db itx rk now msg =
    (case Convert_ContractOffer lib msg of
       None \<Rightarrow> (ReturnError ''Failed to convert'', db)
     | Some cf0 \<Rightarrow>
        (case index_at (itx_Inputs itx) 0 of
           Inl p \<Rightarrow> (Panicked, db)
         | Inr input0 \<Rightarrow>
            (let cf1 = cf0\<lparr>cf_AdminAddress := in_Address input0\<rparr> in
             if co_ContractOperatorIncluded msg \<and> length (itx_Inputs itx) < 2
             then (RespondRejectText RejectionsMsgMalformed ''missing operator input'', db)
             else
              (let cf2 = (if co_ContractOperatorIncluded msg
                          then cf1\<lparr>cf_OperatorAddress := in_Address (itx_Inputs itx ! 1)\<rparr>
                          else cf1);
                   cf = cf2\<lparr>cf_ContractRevision := 0, cf_Timestamp := now\<rparr>;
                   w = [AddOutput rk 0, AddContractFee (co_ContractFee msg)];
                   db1 = AddTx db itx
               in if RespondSuccess_ok lib itx w (MsgContractFormation cf)
                  then (RespondSuccess w (MsgContractFormation cf),
                        SaveContractFormation db1 rk cf)
                  else (ReturnError ''Failed to respond'', db1)))))"

definition OfferRequest ::
  "handler_lib \<Rightarrow> DB \<Rightarrow> Transaction \<Rightarrow> RawAddress \<Rightarrow> Timestamp \<Rightarrow> rejections response \<times> DB"
where
  "OfferRequest lib db itx rk now =
    (case itx_MsgProto itx of
       MsgContractOffer msg \<Rightarrow>
        if itx_RejectCode itx \<noteq> RejectionsSuccess
        then (RespondReject (itx_RejectCode itx), db)
        else
         (case Retrieve (db_contracts db) rk of
            Inr ct \<Rightarrow> (RespondReject RejectionsContractExists, db)
          | Inl err \<Rightarrow>
             if err \<noteq> ErrNotFound then (ReturnError ''Failed to retrieve contract'', db)
             else if co_BodyOfAgreementType msg = 1 \<and> length (co_BodyOfAgreement msg) \<noteq> 32
               then (RespondReject RejectionsMsgMalformed, db)
             else if co_ContractExpiration msg \<noteq> 0 \<and> co_ContractExpiration msg < now
               then (RespondReject RejectionsMsgMalformed, db)
             else if length (co_MasterAddress msg) > 0
                     \<and> \<not> DecodeRawAddress lib (co_MasterAddress msg)
               then (RespondRejectText RejectionsMsgMalformed ''invalid master address'', db)
             else if \<not> PermissionsFromBytes lib (co_ContractPermissions msg)
                        (length (co_VotingSystems msg))
               then (RespondReject RejectionsMsgMalformed, db)
             else if list_ex (\<lambda>votingSystem. \<not> ValidateVotingSystem lib votingSystem)
                        (co_VotingSystems msg)
               then (RespondReject RejectionsMsgMalformed, db)
             else OfferRequest_accept lib db itx rk now msg)
     | _ \<Rightarrow> (ReturnError ''Could not assert as *actions.ContractOffer'', db))"

subsection \<open>\<^verbatim>\<open>Contract.AmendmentRequest\<close>\<close>

text \<open>The part of the handler after the check of the proposal: the stored contract
  formation is fetched, the change of the administration or the operator address is
  checked against the inputs, the amendments are applied, and the formation is sent with
  the next revision.\<close>

definition AmendmentRequest_amend ::
  "handler_lib \<Rightarrow> DB \<Rightarrow> Transaction \<Rightarrow> RawAddress \<Rightarrow> Timestamp \<Rightarrow> ContractAmendment \<Rightarrow> Contract
    \<Rightarrow> bool \<Rightarrow> nat \<Rightarrow> nat \<Rightarrow> rejections response \<times> DB"
where
  "AmendmentRequest_amend lib db itx rk now msg ct proposed proposalType votingSystem =
    (case FetchContractFormation db rk of
       Inl err \<Rightarrow> (ReturnError ''fetch contract formation'', db)
     | Inr cf0 \<Rightarrow>
        (let inputs = map in_Address (itx_Inputs itx) in
         if cf_RestrictedQtyAssets cf0 > 0
            \<and> cf_RestrictedQtyAssets cf0 < length (AssetCodes ct)
         then (RespondReject RejectionsContractAssetQtyReduction, db)
         else if (cam_ChangeAdministrationAddress msg \<or> cam_ChangeOperatorAddress msg)
                 \<and> (if \<not> IsEmpty (OperatorAddress ct)
                     then length inputs < 2
                          \<or> inputs ! 0 = inputs ! 1
                          \<or> \<not> IsOperatorAddress ct (inputs ! 0)
                          \<or> \<not> IsOperatorAddress ct (inputs ! 1)
                     else length inputs < 1 \<or> \<not> IsOperatorAddress ct (inputs ! 0))
         then (RespondReject RejectionsContractBothOperatorsRequired, db)
         else
          (let inputIndex0 = (if \<not> IsEmpty (OperatorAddress ct) then 2 else 1::nat) in
           if cam_ChangeAdministrationAddress msg \<and> length inputs \<le> inputIndex0
           then (ReturnError ''New administration specified but not included in inputs'', db)
           else
            (let cf1 = (if cam_ChangeAdministrationAddress msg
                        then cf0\<lparr>cf_AdminAddress := inputs ! inputIndex0\<rparr> else cf0);
                 inputIndex = (if cam_ChangeAdministrationAddress msg
                               then inputIndex0 + 1 else inputIndex0)
             in if cam_ChangeOperatorAddress msg \<and> length inputs \<le> inputIndex
                then (ReturnError ''New operator specified but not included in inputs'', db)
                else
                 (let cf2 = (if cam_ChangeOperatorAddress msg
                             then cf1\<lparr>cf_OperatorAddress := inputs ! inputIndex\<rparr> else cf1)
                  in case applyContractAmendments lib cf2 (cam_Amendments msg) proposed
                            proposalType votingSystem of
                       Inl err \<Rightarrow> (RespondReject RejectionsMsgMalformed, db)
                     | Inr cf3 \<Rightarrow>
                        if list_ex (\<lambda>adminCert. \<not> validateContractAmendOracleSig lib cf3 adminCert)
                             (cf_AdminIdentityCertificates cf3)
                        then (RespondReject RejectionsInvalidSignature, db)
                        else
                         (let cf = cf3\<lparr> cf_ContractRevision := Revision ct + 1,
                                         cf_Timestamp := now \<rparr>;
                              w = [AddOutput rk 0, AddContractFee (ContractFee ct)];
                              db1 = AddTx db itx
                          in if RespondSuccess_ok lib itx w (MsgContractFormation cf)
                             then (RespondSuccess w (MsgContractFormation cf),
                                   SaveContractFormation db1 rk cf)
                             else (ReturnError ''Failed to respond'', db1)))))))"

definition AmendmentRequest ::
  "handler_lib \<Rightarrow> DB \<Rightarrow> Transaction \<Rightarrow> RawAddress \<Rightarrow> Timestamp \<Rightarrow> rejections response \<times> DB"
where
  "AmendmentRequest lib db itx rk now =
    (case itx_MsgProto itx of
       MsgContractAmendment msg \<Rightarrow>
        if itx_RejectCode itx \<noteq> RejectionsSuccess
        then (RespondReject (itx_RejectCode itx), db)
        else
         (case Retrieve (db_contracts db) rk of
            Inl err \<Rightarrow> (ReturnError ''Failed to retrieve contract'', db)
          | Inr ct \<Rightarrow>
             if \<not> IsEmpty (MovedTo ct) then (RespondReject RejectionsContractMoved, db)
             else
              (case index_at (itx_Inputs itx) 0 of
                 Inl p \<Rightarrow> (Panicked, db)
               | Inr input0 \<Rightarrow>
                  if \<not> IsOperatorAddress ct (in_Address input0)
                  then (RespondReject RejectionsNotOperator, db)
                  else if Revision ct \<noteq> cam_ContractRevision msg
                    then (RespondReject RejectionsContractRevision, db)
                  else
                   (case check_proposal lib db rk (cam_RefTxID msg) (cam_Amendments msg) None of
                      Inl r \<Rightarrow> (r, db)
                    | Inr (proposed, proposalType, votingSystem) \<Rightarrow>
                       AmendmentRequest_amend lib db itx rk now msg ct proposed proposalType
                         votingSystem)))
     | _ \<Rightarrow> (ReturnError ''Could not assert as *protocol.ContractAmendment'', db))"

section \<open>Enforcement orders\<close>

text \<open>The rejection codes \<^verbatim>\<open>protocol.RejectionCode...\<close> that the enforcement handlers
  send.\<close>

datatype rejection_code =
    RejectionCodeOK | RejectionCodeMalformed | RejectionCodeOperatorAddress
  | RejectionCodeInvalidSig | RejectionCodeAssetNotFound | RejectionCodeInsufficientAssets
  | RejectionCodeUnknownAddress

text \<open>The functions of \<^verbatim>\<open>btcec\<close>, \<^verbatim>\<open>btcutil\<close>, \<^verbatim>\<open>node\<close> and the protocol library that the
  enforcement handlers call; they are parameters of the model. A parser is the predicate
  that it returns no error; \<^verbatim>\<open>btcutil.NewAddressPubKeyHash\<close>, \<^verbatim>\<open>OrderAuthoritySigHash\<close> and
  the conversions return \<open>None\<close> for their error. A conversion takes the message and the
  response as it is before the conversion.\<close>

record enforcement_lib =
  ParsePubKey :: "bytes \<Rightarrow> bool"
  ParseSignature :: "bytes \<Rightarrow> bool"
  OrderAuthoritySigHash :: "PublicKeyHash \<Rightarrow> Order \<Rightarrow> bytes option"
  Verify :: "bytes \<Rightarrow> bytes \<Rightarrow> bytes \<Rightarrow> bool"
  NewAddressPubKeyHash :: "bytes \<Rightarrow> RawAddress option"
  Convert_Freeze :: "Order \<Rightarrow> Freeze \<Rightarrow> Freeze option"
  Convert_Confiscation :: "Order \<Rightarrow> Confiscation \<Rightarrow> Confiscation option"
  Convert_Reconciliation :: "Order \<Rightarrow> Reconciliation \<Rightarrow> Reconciliation option"
  enf_RespondSuccess_ok :: "Transaction \<Rightarrow> w_call list \<Rightarrow> message \<Rightarrow> bool"

text \<open>Modelled from the spec: \<^verbatim>\<open>asset.GetBalance\<close> and \<^verbatim>\<open>asset.CheckHolding\<close> are not among
  the sources. The balance of a party is that of its holding, 0 without a holding, and the
  check is that the party has a holding.\<close>

definition GetBalance :: "Asset \<Rightarrow> PublicKeyHash \<Rightarrow> nat" where
  "GetBalance as pkh = (case map_of (as_Holdings as) pkh of None \<Rightarrow> 0 | Some b \<Rightarrow> b)"

definition CheckHolding :: "Asset \<Rightarrow> PublicKeyHash \<Rightarrow> bool" where
  "CheckHolding as pkh = (map_of (as_Holdings as) pkh \<noteq> None)"

text \<open>The end of the four order handlers: the change output to the contract address, the
  contract fee and the response. \<open>w\<close> is what the handler has asked of the writer
  before.\<close>

definition order_respond ::
  "enforcement_lib \<Rightarrow> DB \<Rightarrow> Transaction \<Rightarrow> PublicKeyHash \<Rightarrow> Contract \<Rightarrow> w_call list \<Rightarrow> message
    \<Rightarrow> rejection_code response \<times> DB"
where
  "order_respond lib db itx contractPKH ct w m =
    (case NewAddressPubKeyHash lib contractPKH of
       None \<Rightarrow> (RespondReject RejectionCodeUnknownAddress, db)
     | Some contractAddress \<Rightarrow>
        (let w' = w @ [AddChangeOutput contractAddress, AddContractFee (ContractFee ct)] in
         if enf_RespondSuccess_ok lib itx w' m then (RespondSuccess w' m, db)
         else (ReturnError ''Failed to respond'', db)))"

subsection \<open>\<^verbatim>\<open>OrderFreezeRequest\<close>\<close>

text \<open>The loop over the target addresses of a freeze: the outputs and the quantities it
  appends, or the code of its rejection.\<close>

fun freeze_targets ::
  "enforcement_lib \<Rightarrow> Asset \<Rightarrow> TargetAddress list \<Rightarrow> 16 word \<Rightarrow> w_call list \<Rightarrow> QuantityIndex list
    \<Rightarrow> rejection_code + (w_call list \<times> QuantityIndex list)"
where
  "freeze_targets lib as [] outputIndex w quantities = Inr (w, quantities)"
| "freeze_targets lib as (target # targets) outputIndex w quantities =
    (if \<not> CheckHolding as (ta_Address target) then Inl RejectionCodeInsufficientAssets
     else if ta_Quantity target = 0 then Inl RejectionCodeMalformed
     else case NewAddressPubKeyHash lib (ta_Address target) of
       None \<Rightarrow> Inl RejectionCodeUnknownAddress
     | Some targetAddr \<Rightarrow>
        freeze_targets lib as targets (outputIndex + 1) (w @ [AddOutput targetAddr 0])
          (quantities @ [\<lparr>qi_Index = outputIndex, qi_Quantity = ta_Quantity target\<rparr>]))"

definition OrderFreezeRequest ::
  "enforcement_lib \<Rightarrow> DB \<Rightarrow> Transaction \<Rightarrow> PublicKeyHash \<Rightarrow> Timestamp
    \<Rightarrow> rejection_code response \<times> DB"
where
  "OrderFreezeRequest lib db itx contractPKH now =
    (case itx_MsgProto itx of
       MsgOrder msg \<Rightarrow>
        (case Retrieve (db_contracts db) contractPKH of
           Inl err \<Rightarrow> (ReturnError ''Failed to retrieve contract'', db)
         | Inr ct \<Rightarrow>
            (case Convert_Freeze lib msg
                    \<lparr> fr_AssetCode = [], fr_Quantities = [], fr_FreezePeriod = 0,
                      fr_Timestamp = now \<rparr> of
               None \<Rightarrow> (ReturnError ''Failed to convert freeze order to freeze'', db)
             | Some freeze0 \<Rightarrow>
                if length (ord_TargetAddresses msg) = 0
                then (RespondReject RejectionCodeMalformed, db)
                else
                 (let full = (length (ord_TargetAddresses msg) = 1
                              \<and> ta_Address (ord_TargetAddresses msg ! 0) = contractPKH);
                      freeze1 = (if full
                                 then freeze0\<lparr>fr_Quantities := fr_Quantities freeze0
                                        @ [\<lparr>qi_Index = 0, qi_Quantity = 0\<rparr>]\<rparr>
                                 else freeze0)
                  in if IsZero (ord_AssetCode msg)
                     then (if \<not> full then (RespondReject RejectionCodeMalformed, db)
                           else order_respond lib db itx contractPKH ct [] (MsgFreeze freeze1))
                     else
                      (case asset_Retrieve db contractPKH (ord_AssetCode msg) of
                         Inl err \<Rightarrow> (RespondReject RejectionCodeAssetNotFound, db)
                       | Inr None \<Rightarrow> (Panicked, db)
                       | Inr (Some as) \<Rightarrow>
                          if \<not> full
                          then (case freeze_targets lib as (ord_TargetAddresses msg) 0 []
                                       (fr_Quantities freeze1) of
                                  Inl code \<Rightarrow> (RespondReject code, db)
                                | Inr (w, quantities) \<Rightarrow>
                                   order_respond lib db itx contractPKH ct w
                                     (MsgFreeze (freeze1\<lparr>fr_Quantities := quantities\<rparr>)))
                          else order_respond lib db itx contractPKH ct [] (MsgFreeze freeze1)))))
     | _ \<Rightarrow> (ReturnError ''Could not assert as *protocol.Order'', db))"

subsection \<open>\<^verbatim>\<open>OrderThawRequest\<close>\<close>

text \<open>An index expression with an index of type \<^verbatim>\<open>uint16\<close>.\<close>

definition index16 :: "'a list \<Rightarrow> 16 word \<Rightarrow> panic + 'a" where
  "index16 xs i = index_at xs (uint i)"

text \<open>The loop over the quantities of the freeze that a thaw inverts: one output per
  quantity, to the address of the output of the freeze transaction that it names.\<close>

fun thaw_targets :: "Transaction \<Rightarrow> QuantityIndex list \<Rightarrow> w_call list \<Rightarrow> panic + w_call list" where
  "thaw_targets freezeTx [] w = Inr w"
| "thaw_targets freezeTx (quantity # quantities) w =
    (case index16 (itx_Outputs freezeTx) (qi_Index quantity) of
       Inl p \<Rightarrow> Inl p
     | Inr out \<Rightarrow> thaw_targets freezeTx quantities (w @ [AddOutput (out_Address out) 0]))"

definition OrderThawRequest ::
  "enforcement_lib \<Rightarrow> DB \<Rightarrow> Transaction \<Rightarrow> PublicKeyHash \<Rightarrow> Timestamp
    \<Rightarrow> rejection_code response \<times> DB"
where
  "OrderThawRequest lib db itx contractPKH now =
    (case itx_MsgProto itx of
       MsgOrder msg \<Rightarrow>
        (case index_at (itx_Inputs itx) 0 of
           Inl p \<Rightarrow> (Panicked, db)
         | Inr input0 \<Rightarrow>
            if in_Address input0 \<noteq> contractPKH then (ReturnError ''Thaw not from contract'', db)
            else
             (case db_TxCache db (ord_FreezeTxId msg) of
                None \<Rightarrow> (ReturnError ''Failed to retrieve freeze tx for thaw'', db)
              | Some freezeTx \<Rightarrow>
                 (case itx_MsgProto freezeTx of
                    MsgFreeze freeze \<Rightarrow>
                     (case Retrieve (db_contracts db) contractPKH of
                        Inl err \<Rightarrow> (ReturnError ''Failed to retrieve contract'', db)
                      | Inr ct \<Rightarrow>
                         (let thaw = \<lparr> th_FreezeTxId = ord_FreezeTxId msg, th_Timestamp = now \<rparr> in
                          if length (fr_Quantities freeze) = 0
                          then (RespondReject RejectionCodeMalformed, db)
                          else
                           (case (if length (fr_Quantities freeze) = 1
                                  then (case index16 (itx_Outputs freezeTx)
                                               (qi_Index (fr_Quantities freeze ! 0)) of
                                          Inl p \<Rightarrow> Inl p
                                        | Inr out \<Rightarrow> Inr (out_Address out = contractPKH))
                                  else Inr False) of
                              Inl p \<Rightarrow> (Panicked, db)
                            | Inr full \<Rightarrow>
                               if IsZero (fr_AssetCode freeze)
                               then (if \<not> full then (RespondReject RejectionCodeMalformed, db)
                                     else order_respond lib db itx contractPKH ct [] (MsgThaw thaw))
                               else if \<not> full
                               then (case thaw_targets freezeTx (fr_Quantities freeze) [] of
                                       Inl p \<Rightarrow> (Panicked, db)
                                     | Inr w \<Rightarrow>
                                        order_respond lib db itx contractPKH ct w (MsgThaw thaw))
                               else order_respond lib db itx contractPKH ct [] (MsgThaw thaw))))
                  | _ \<Rightarrow> (ReturnError ''Failed to assert freeze tx op return'', db))))
     | _ \<Rightarrow> (ReturnError ''Could not assert as *protocol.Order'', db))"

subsection \<open>\<^verbatim>\<open>OrderConfiscateRequest\<close>\<close>

text \<open>The loop over the target addresses of a confiscation: the outputs, the quantities
  (the balance that is left to each target) and the deposit quantity.\<close>

fun confiscate_targets ::
  "enforcement_lib \<Rightarrow> Asset \<Rightarrow> TargetAddress list \<Rightarrow> 16 word \<Rightarrow> w_call list \<Rightarrow> QuantityIndex list
    \<Rightarrow> nat \<Rightarrow> rejection_code + (w_call list \<times> QuantityIndex list \<times> nat)"
where
  "confiscate_targets lib as [] outputIndex w quantities depositQty =
    Inr (w, quantities, depositQty)"
| "confiscate_targets lib as (target # targets) outputIndex w quantities depositQty =
    (if ta_Quantity target = 0 then Inl RejectionCodeMalformed
     else
      (let balance = GetBalance as (ta_Address target) in
       if ta_Quantity target > balance then Inl RejectionCodeInsufficientAssets
       else case NewAddressPubKeyHash lib (ta_Address target) of
         None \<Rightarrow> Inl RejectionCodeUnknownAddress
       | Some targetAddr \<Rightarrow>
          confiscate_targets lib as targets (outputIndex + 1) (w @ [AddOutput targetAddr 0])
            (quantities
              @ [\<lparr>qi_Index = outputIndex, qi_Quantity = balance - ta_Quantity target\<rparr>])
            (depositQty + ta_Quantity target)))"

definition OrderConfiscateRequest ::
  "enforcement_lib \<Rightarrow> DB \<Rightarrow> Transaction \<Rightarrow> PublicKeyHash \<Rightarrow> Timestamp
    \<Rightarrow> rejection_code response \<times> DB"
where
  "OrderConfiscateRequest lib db itx contractPKH now =
    (case itx_MsgProto itx of
       MsgOrder msg \<Rightarrow>
        (case Retrieve (db_contracts db) contractPKH of
           Inl err \<Rightarrow> (ReturnError ''Failed to retrieve contract'', db)
         | Inr ct \<Rightarrow>
            (case asset_Retrieve db contractPKH (ord_AssetCode msg) of
               Inl err \<Rightarrow> (RespondReject RejectionCodeAssetNotFound, db)
             | Inr None \<Rightarrow> (Panicked, db)
             | Inr (Some as) \<Rightarrow>
                (case Convert_Confiscation lib msg
                        \<lparr> cn_AssetCode = [], cn_Quantities = [], cn_DepositQty = 0,
                          cn_Timestamp = 0 \<rparr> of
                   None \<Rightarrow>
                    (ReturnError ''Failed to convert confiscation order to confiscation'', db)
                 | Some confiscation0 \<Rightarrow>
                    (case NewAddressPubKeyHash lib (ord_DepositAddress msg) of
                       None \<Rightarrow> (RespondReject RejectionCodeUnknownAddress, db)
                     | Some depositAddr \<Rightarrow>
                        (case confiscate_targets lib as (ord_TargetAddresses msg) 0 [] []
                                (GetBalance as (ord_DepositAddress msg)) of
                           Inl code \<Rightarrow> (RespondReject code, db)
                         | Inr (w, quantities, depositQty) \<Rightarrow>
                            order_respond lib db itx contractPKH ct
                              (w @ [AddOutput depositAddr 0])
                              (MsgConfiscation
                                (confiscation0\<lparr> cn_Timestamp := now,
                                                 cn_Quantities := quantities,
                                                 cn_DepositQty := depositQty \<rparr>)))))))
     | _ \<Rightarrow> (ReturnError ''Could not assert as *protocol.Order'', db))"

subsection \<open>\<^verbatim>\<open>OrderReconciliationRequest\<close>\<close>

text \<open>\<^verbatim>\<open>node.Output\<close>: an address and a bitcoin value.\<close>

record node_Output =
  no_Address :: RawAddress
  no_Value :: nat

text \<open>The loop over the target addresses of a reconciliation: the quantities (the balance
  that is left to each target), one output of value 0 per target, and the index of the
  output of each target.\<close>

fun reconcile_targets ::
  "enforcement_lib \<Rightarrow> Asset \<Rightarrow> TargetAddress list \<Rightarrow> 16 word \<Rightarrow> QuantityIndex list
    \<Rightarrow> 16 word list \<Rightarrow> node_Output list
    \<Rightarrow> rejection_code + (QuantityIndex list \<times> 16 word list \<times> node_Output list)"
where
  "reconcile_targets lib as [] outputIndex quantities addressOutputIndex outputs =
    Inr (quantities, addressOutputIndex, outputs)"
| "reconcile_targets lib as (target # targets) outputIndex quantities addressOutputIndex outputs =
    (if ta_Quantity target = 0 then Inl RejectionCodeMalformed
     else
      (let balance = GetBalance as (ta_Address target) in
       if ta_Quantity target > balance then Inl RejectionCodeInsufficientAssets
       else case NewAddressPubKeyHash lib (ta_Address target) of
         None \<Rightarrow> Inl RejectionCodeUnknownAddress
       | Some targetAddr \<Rightarrow>
          reconcile_targets lib as targets (outputIndex + 1)
            (quantities
              @ [\<lparr>qi_Index = outputIndex, qi_Quantity = balance - ta_Quantity target\<rparr>])
            (addressOutputIndex @ [outputIndex])
            (outputs @ [\<lparr>no_Address = targetAddr, no_Value = 0\<rparr>])))"

text \<open>The loop \<^verbatim>\<open>for _, quantity := range msg.BitcoinDispersions { if int(quantity.Index) >=
  len(addressOutputIndex) { outputs[addressOutputIndex[quantity.Index]].Value +=
  quantity.Quantity } }\<close>, with the panic of the two index expressions.\<close>

fun bitcoin_dispersions ::
  "QuantityIndex list \<Rightarrow> 16 word list \<Rightarrow> node_Output list \<Rightarrow> panic + node_Output list"
where
  "bitcoin_dispersions [] addressOutputIndex outputs = Inr outputs"
| "bitcoin_dispersions (quantity # quantities) addressOutputIndex outputs =
    (if uint (qi_Index quantity) \<ge> int (length addressOutputIndex)
     then (case index16 addressOutputIndex (qi_Index quantity) of
             Inl p \<Rightarrow> Inl p
           | Inr i \<Rightarrow>
              (case index16 outputs i of
                 Inl p \<Rightarrow> Inl p
               | Inr out \<Rightarrow>
                  bitcoin_dispersions quantities addressOutputIndex
                    (outputs[unat i := out\<lparr>no_Value := no_Value out + qi_Quantity quantity\<rparr>])))
     else bitcoin_dispersions quantities addressOutputIndex outputs)"

definition OrderReconciliationRequest ::
  "enforcement_lib \<Rightarrow> DB \<Rightarrow> Transaction \<Rightarrow> PublicKeyHash \<Rightarrow> Timestamp
    \<Rightarrow> rejection_code response \<times> DB"
where
  "OrderReconciliationRequest lib db itx contractPKH now =
    (case itx_MsgProto itx of
       MsgOrder msg \<Rightarrow>
        (case Retrieve (db_contracts db) contractPKH of
           Inl err \<Rightarrow> (ReturnError ''Failed to retrieve contract'', db)
         | Inr ct \<Rightarrow>
            (case asset_Retrieve db contractPKH (ord_AssetCode msg) of
               Inl err \<Rightarrow> (RespondReject RejectionCodeAssetNotFound, db)
             | Inr None \<Rightarrow> (Panicked, db)
             | Inr (Some as) \<Rightarrow>
                (case Convert_Reconciliation lib msg
                        \<lparr> rc_AssetCode = [], rc_Quantities = [], rc_Timestamp = 0 \<rparr> of
                   None \<Rightarrow>
                    (ReturnError ''Failed to convert reconciliation order to reconciliation'', db)
                 | Some reconciliation0 \<Rightarrow>
                    (case reconcile_targets lib as (ord_TargetAddresses msg) 0 [] [] [] of
                       Inl code \<Rightarrow> (RespondReject code, db)
                     | Inr (quantities, addressOutputIndex, outputs0) \<Rightarrow>
                        (case bitcoin_dispersions (ord_BitcoinDispersions msg) addressOutputIndex
                                outputs0 of
                           Inl p \<Rightarrow> (Panicked, db)
                         | Inr outputs \<Rightarrow>
                            order_respond lib db itx contractPKH ct
                              (map (\<lambda>output. AddOutput (no_Address output) (no_Value output))
                                outputs)
                              (MsgReconciliation
                                (reconciliation0\<lparr> rc_Timestamp := now,
                                                   rc_Quantities := quantities \<rparr>)))))))
     | _ \<Rightarrow> (ReturnError ''Could not assert as *protocol.Order'', db))"

subsection \<open>\<^verbatim>\<open>Enforcement.OrderRequest\<close>\<close>

definition OrderRequest ::
  "enforcement_lib \<Rightarrow> DB \<Rightarrow> Transaction \<Rightarrow> PublicKeyHash \<Rightarrow> Timestamp
    \<Rightarrow> rejection_code response \<times> DB"
where
  "OrderRequest lib db itx contractPKH now =
    (case itx_MsgProto itx of
       MsgOrder msg \<Rightarrow>
        (case Retrieve (db_contracts db) contractPKH of
           Inl err \<Rightarrow> (ReturnError ''Failed to retrieve contract'', db)
         | Inr ct \<Rightarrow>
            (case index_at (itx_Inputs itx) 0 of
               Inl p \<Rightarrow> (Panicked, db)
             | Inr input0 \<Rightarrow>
                if \<not> IsOperator ct (in_Address input0)
                then (RespondReject RejectionCodeOperatorAddress, db)
                else if ord_AuthorityIncluded msg \<and> ord_SignatureAlgorithm msg \<noteq> 1
                  then (RespondReject RejectionCodeMalformed, db)
                else if ord_AuthorityIncluded msg \<and> \<not> ParsePubKey lib (ord_AuthorityPublicKey msg)
                  then (RespondReject RejectionCodeMalformed, db)
                else if ord_AuthorityIncluded msg \<and> \<not> ParseSignature lib (ord_OrderSignature msg)
                  then (RespondReject RejectionCodeMalformed, db)
                else
                 (case (if ord_AuthorityIncluded msg
                        then (case OrderAuthoritySigHash lib contractPKH msg of
                                None \<Rightarrow> Some (ReturnError ''Failed to calculate authority sig hash'')
                              | Some sigHash \<Rightarrow>
                                 if \<not> Verify lib (ord_OrderSignature msg) sigHash
                                        (ord_AuthorityPublicKey msg)
                                 then Some (RespondReject RejectionCodeInvalidSig)
                                 else None)
                        else None) of
                    Some r \<Rightarrow> (r, db)
                  | None \<Rightarrow>
                     (case ord_ComplianceAction msg of
                        ComplianceActionFreeze \<Rightarrow> OrderFreezeRequest lib db itx contractPKH now
                      | ComplianceActionThaw \<Rightarrow> OrderThawRequest lib db itx contractPKH now
                      | ComplianceActionConfiscation \<Rightarrow>
                         OrderConfiscateRequest lib db itx contractPKH now
                      | ComplianceActionReconciliation \<Rightarrow>
                         OrderReconciliationRequest lib db itx contractPKH now
                      | ComplianceActionUnknown b \<Rightarrow> (ReturnNil, db)))))
     | _ \<Rightarrow> (ReturnError ''Could not assert as *protocol.Order'', db))"

section \<open>Example values\<close>

definition ex_Contract :: Contract where
  "ex_Contract =
    \<lparr> ID = [1], Revision = 0, CreatedAt = 1, UpdatedAt = 1, Timestamp = 1,
      IssuerPKH = [2], OperatorPKH = [], AdministrationAddress = [2], OperatorAddress = [],
      MasterAddress = [], MovedTo = [], ContractName = ''X'', ContractType = [],
      BodyOfAgreementType = 0, BodyOfAgreement = [], SupportingDocsFileType = 0,
      SupportingDocs = [], GoverningLaw = [], Jurisdiction = [], ContractExpiration = 0,
      ContractURI = [], Issuer = [], IssuerLogoURL = [], ContractOperator = [],
      ContractAuthFlags = [], ContractFee = 1000, VotingSystems = Some [],
      RestrictedQtyAssets = 1, IssuerProposal = False, HolderProposal = False,
      Oracles = Some [], FreezePeriod = 0, AssetCodes = [[7]], AdminMemberAsset = [] \<rparr>"

definition ex_UpdateContract :: UpdateContract where
  "ex_UpdateContract =
    \<lparr> upd_Revision = None, upd_Timestamp = None, upd_IssuerPKH = None, upd_OperatorPKH = None,
      upd_ContractName = None, upd_ContractType = None, upd_BodyOfAgreementType = None,
      upd_BodyOfAgreement = None, upd_SupportingDocsFileType = None, upd_SupportingDocs = None,
      upd_GoverningLaw = None, upd_Jurisdiction = None, upd_ContractExpiration = None,
      upd_ContractURI = None, upd_Issuer = None, upd_IssuerLogoURL = None,
      upd_ContractOperator = None, upd_ContractAuthFlags = None, upd_ContractFee = None,
      upd_VotingSystems = None, upd_RestrictedQtyAssets = None, upd_IssuerProposal = None,
      upd_HolderProposal = None, upd_Oracles = Some None, upd_FreezePeriod = Some 5 \<rparr>"

definition ex_lib :: wire_lib where
  "ex_lib =
    \<lparr> DoubleSha256 = (\<lambda>b. replicate 32 (of_nat (length b))),
      WriteVarBytes = (\<lambda>b. of_nat (length b) # b),
      TxOut_Serialize =
        (\<lambda>out. PutUint64 (Value out) @ of_nat (length (PkScript out)) # PkScript out) \<rparr>"

definition ex_tx :: MsgTx where
  "ex_tx =
    \<lparr> Version = 1,
      TxIn = [\<lparr> PreviousOutPoint = \<lparr> Hash = replicate 32 7, Index = 0 \<rparr>,
               SignatureScript = [], Sequence = 0xffffffff \<rparr>],
      TxOut = [], LockTime = 0 \<rparr>"

definition ex_cache :: SigHashCache where
  "ex_cache = \<lparr> hashPrevOuts = None, hashSequence = None, hashOutputs = None \<rparr>"

text \<open>A stand-in for the Base58 text form and the digest: one character per byte, and a
  digest of 32 bytes.\<close>

definition ex_base58 :: base58_lib where
  "ex_base58 =
    \<lparr> Base58 = map (\<lambda>b. char_of (unat b)),
      Base58Decode = map (\<lambda>c. of_nat (of_char c)),
      Sha256d = (\<lambda>b. replicate 32 (of_nat (length b))) \<rparr>"

definition ex_multi_pkh :: Address where
  "ex_multi_pkh = AddressMultiPKH 1 [replicate 20 0] MainNet"

text \<open>Values for the handlers: a library that accepts every message, a contract at the
  address \<open>[1]\<close> with the administration at \<open>[2]\<close>, an asset limit of 1 and one asset, and
  the same contract after it has moved to \<open>[9]\<close>.\<close>

definition ex_hlib :: handler_lib where
  "ex_hlib =
    \<lparr> PermissionsFromBytes = (\<lambda>b n. True),
      DecodeRawAddress = (\<lambda>b. True),
      ValidateVotingSystem = (\<lambda>v. True),
      AssetCodeFromContract = (\<lambda>a n. a @ [of_nat n]),
      assets_Deserialize = (\<lambda>t p. Some (OtherPayload t)),
      payload_Validate = (\<lambda>p. True),
      Convert_ContractOffer =
        (\<lambda>co. Some \<lparr> cf_ContractName = co_ContractName co, cf_AdminAddress = [],
                     cf_OperatorAddress = [], cf_ContractFee = co_ContractFee co,
                     cf_ContractPermissions = co_ContractPermissions co,
                     cf_VotingSystems = co_VotingSystems co, cf_RestrictedQtyAssets = 0,
                     cf_AdminIdentityCertificates = [], cf_ContractRevision = 7,
                     cf_Timestamp = 0 \<rparr>),
      Convert_AssetDefinition =
        (\<lambda>ad. Some \<lparr> ac_AssetCode = [], ac_AssetIndex = 0,
                     ac_AssetPermissions = ad_AssetPermissions ad,
                     ac_AssetType = ad_AssetType ad, ac_TokenQty = ad_TokenQty ad,
                     ac_AssetPayload = ad_AssetPayload ad, ac_AssetRevision = 0,
                     ac_Timestamp = 0 \<rparr>),
      Convert_Asset =
        (\<lambda>as. Some \<lparr> ac_AssetCode = [], ac_AssetIndex = 0,
                     ac_AssetPermissions = as_AssetPermissions as,
                     ac_AssetType = as_AssetType as, ac_TokenQty = as_TokenQty as,
                     ac_AssetPayload = as_AssetPayload as, ac_AssetRevision = as_Revision as,
                     ac_Timestamp = 0 \<rparr>),
      NewHash32 = Some,
      applyAssetAmendments =
        (\<lambda>ac vs amendments proposed proposalType votingSystem.
           Inr (case amendments of
                  [] \<Rightarrow> ac
                | a # _ \<Rightarrow> ac\<lparr>ac_TokenQty := length a\<rparr>)),
      applyContractAmendments =
        (\<lambda>cf amendments proposed proposalType votingSystem. Inr cf),
      validateContractAmendOracleSig = (\<lambda>cf cert. True),
      RespondSuccess_ok = (\<lambda>itx w m. True) \<rparr>"

definition ex_moved :: Contract where
  "ex_moved = ex_Contract\<lparr>MovedTo := [9]\<rparr>"

definition ex_Asset :: Asset where
  "ex_Asset =
    \<lparr> as_Revision = 0, as_AssetType = ''SHC'', as_AssetPermissions = [], as_TokenQty = 10,
      as_AssetPayload = [], as_Holdings = [([3], 10)] \<rparr>"

definition ex_admin_holding :: Holding where
  "ex_admin_holding =
    \<lparr> h_Address = [2], h_FinalizedBalance = 4, h_PendingCredits = [], h_PendingDebits = [] \<rparr>"

definition ex_db_empty :: DB where
  "ex_db_empty =
    \<lparr> db_contracts = Map.empty, db_assets = Map.empty, db_holdings = Map.empty,
      db_votes = Map.empty, db_txs = Map.empty, db_TxCache = Map.empty,
      db_formations = Map.empty \<rparr>"

definition ex_db :: DB where
  "ex_db =
    ex_db_empty\<lparr> db_contracts := [[1] \<mapsto> ex_Contract],
                  db_assets := [([1], [7]) \<mapsto> ex_Asset],
                  db_holdings := [([1], [7], [2]) \<mapsto> ex_admin_holding] \<rparr>"

definition ex_db_moved :: DB where
  "ex_db_moved = ex_db\<lparr>db_contracts := [[1] \<mapsto> ex_moved]\<rparr>"

definition ex_AssetDefinition :: AssetDefinition where
  "ex_AssetDefinition =
    \<lparr> ad_AssetPermissions = [], ad_AssetType = ''SHC'', ad_TokenQty = 10,
      ad_AssetPayload = [] \<rparr>"

definition ex_ContractOffer :: ContractOffer where
  "ex_ContractOffer =
    \<lparr> co_ContractName = ''X'', co_BodyOfAgreementType = 0, co_BodyOfAgreement = [],
      co_ContractExpiration = 0, co_MasterAddress = [], co_ContractPermissions = [],
      co_VotingSystems = [], co_ContractOperatorIncluded = False, co_ContractFee = 1000 \<rparr>"

text \<open>A request transaction with the hash \<open>[5]\<close>, one input from the given address and one
  output to the contract.\<close>

definition ex_itx :: "message \<Rightarrow> RawAddress \<Rightarrow> rejections \<Rightarrow> Transaction" where
  "ex_itx m sender code =
    \<lparr> itx_Hash = [5], itx_MsgProto = m, itx_Inputs = [\<lparr>in_Address = sender\<rparr>],
      itx_Outputs = [\<lparr>out_Address = [1]\<rparr>], itx_RejectCode = code \<rparr>"

text \<open>Values for the enforcement handlers: a library that accepts every key, signature and
  address, and a reconciliation order on the asset \<open>[7]\<close> that takes 4 tokens of the party
  \<open>[3]\<close>, with a bitcoin dispersion of 1000 for the target of the given index.\<close>

definition ex_elib :: enforcement_lib where
  "ex_elib =
    \<lparr> ParsePubKey = (\<lambda>b. True),
      ParseSignature = (\<lambda>b. True),
      OrderAuthoritySigHash = (\<lambda>pkh msg. Some pkh),
      Verify = (\<lambda>sig h key. True),
      NewAddressPubKeyHash = Some,
      Convert_Freeze =
        (\<lambda>msg f. Some (f\<lparr>fr_AssetCode := ord_AssetCode msg,
                          fr_FreezePeriod := ord_FreezePeriod msg\<rparr>)),
      Convert_Confiscation = (\<lambda>msg c. Some (c\<lparr>cn_AssetCode := ord_AssetCode msg\<rparr>)),
      Convert_Reconciliation = (\<lambda>msg r. Some (r\<lparr>rc_AssetCode := ord_AssetCode msg\<rparr>)),
      enf_RespondSuccess_ok = (\<lambda>itx w m. True) \<rparr>"

definition ex_reconciliation_order :: "16 word \<Rightarrow> Order" where
  "ex_reconciliation_order i =
    \<lparr> ord_ComplianceAction = ComplianceActionReconciliation, ord_AssetCode = [7],
      ord_TargetAddresses = [\<lparr>ta_Address = [3], ta_Quantity = 4\<rparr>],
      ord_FreezeTxId = [], ord_FreezePeriod = 0, ord_DepositAddress = [],
      ord_AuthorityIncluded = False, ord_AuthorityPublicKey = [], ord_SignatureAlgorithm = 0,
      ord_OrderSignature = [],
      ord_BitcoinDispersions = [\<lparr>qi_Index = i, qi_Quantity = 1000\<rparr>] \<rparr>"

section \<open>Theorems\<close>

subsection \<open>Inspector\<close>

text \<open>
  C2, as amended. The inspector classifies a tokenized transaction as a request exactly
  when its action code is one of ContractOffer, ContractAmendment, AssetDefinition,
  AssetModification, Transfer, Proposal, BallotCast, Order, and as a response exactly when
  it is one of ContractFormation, AssetCreation, Settlement, Vote, BallotCounted, Result,
  Freeze, Thaw, Confiscation, Reconciliation, Rejection. A transaction that is not
  tokenized is neither.
\<close>

theorem C2_message_type_sets:
  "IsIncomingMessageType m =
    (case m of
       None \<Rightarrow> False
     | Some c \<Rightarrow> c \<in> {CodeContractOffer, CodeContractAmendment, CodeAssetDefinition,
         CodeAssetModification, CodeTransfer, CodeProposal, CodeBallotCast, CodeOrder})
   \<and> IsOutgoingMessageType m =
    (case m of
       None \<Rightarrow> False
     | Some c \<Rightarrow> c \<in> {CodeContractFormation, CodeAssetCreation, CodeSettlement, CodeVote,
         CodeBallotCounted, CodeResult, CodeFreeze, CodeThaw, CodeConfiscation,
         CodeReconciliation, CodeRejection})"
proof (cases m)
  case None
  then show ?thesis
    by (simp add: IsIncomingMessageType_def IsOutgoingMessageType_def)
next
  case (Some c)
  then show ?thesis
    by (cases c)
      (simp_all add: IsIncomingMessageType_def IsOutgoingMessageType_def
        incomingMessageTypes_def outgoingMessageTypes_def)
qed

text \<open>
  C2 as stated fails: a Message is neither an incoming nor an outgoing message type for
  the inspector, and a contract address change is not an incoming one.
\<close>

theorem C2_message_not_classified:
  "\<not> IsIncomingMessageType (Some CodeMessage)
   \<and> \<not> IsIncomingMessageType (Some CodeContractAddressChange)
   \<and> \<not> IsOutgoingMessageType (Some CodeMessage)"
  by (simp add: IsIncomingMessageType_def IsOutgoingMessageType_def
      incomingMessageTypes_def outgoingMessageTypes_def)

subsection \<open>Contract state\<close>

text \<open>
  C9. When \<^verbatim>\<open>contract.Update\<close> succeeds, the contract stored at the address is replaced by
  one in which every field whose update pointer is non-nil has the pointed-to value (a nil
  slice being stored as the empty slice), \<^verbatim>\<open>UpdatedAt\<close> is the given time, and every
  other field, in particular every field whose update pointer is nil, is as before. No
  other entry of the store changes.
\<close>

theorem C9_Update_frame:
  assumes "Update dbConn contractPKH upd now = Inr db'"
  shows "\<exists>c c'. dbConn contractPKH = Some c \<and> db' = dbConn(ID c \<mapsto> c') \<and>
      UpdatedAt c' = now \<and>
      Revision c' = (case upd_Revision upd of None \<Rightarrow> Revision c | Some v \<Rightarrow> v) \<and>
      Timestamp c' = (case upd_Timestamp upd of None \<Rightarrow> Timestamp c | Some v \<Rightarrow> v) \<and>
      IssuerPKH c' = (case upd_IssuerPKH upd of None \<Rightarrow> IssuerPKH c | Some v \<Rightarrow> v) \<and>
      OperatorPKH c' = (case upd_OperatorPKH upd of None \<Rightarrow> OperatorPKH c | Some v \<Rightarrow> v) \<and>
      ContractName c' = (case upd_ContractName upd of None \<Rightarrow> ContractName c | Some v \<Rightarrow> v) \<and>
      ContractType c' = (case upd_ContractType upd of None \<Rightarrow> ContractType c | Some v \<Rightarrow> v) \<and>
      BodyOfAgreementType c' = (case upd_BodyOfAgreementType upd of None \<Rightarrow> BodyOfAgreementType c | Some v \<Rightarrow> v) \<and>
      BodyOfAgreement c' = (case upd_BodyOfAgreement upd of None \<Rightarrow> BodyOfAgreement c | Some v \<Rightarrow> v) \<and>
      SupportingDocsFileType c' = (case upd_SupportingDocsFileType upd of None \<Rightarrow> SupportingDocsFileType c | Some v \<Rightarrow> v) \<and>
      SupportingDocs c' = (case upd_SupportingDocs upd of None \<Rightarrow> SupportingDocs c | Some v \<Rightarrow> v) \<and>
      GoverningLaw c' = (case upd_GoverningLaw upd of None \<Rightarrow> GoverningLaw c | Some v \<Rightarrow> v) \<and>
      Jurisdiction c' = (case upd_Jurisdiction upd of None \<Rightarrow> Jurisdiction c | Some v \<Rightarrow> v) \<and>
      ContractExpiration c' = (case upd_ContractExpiration upd of None \<Rightarrow> ContractExpiration c | Some v \<Rightarrow> v) \<and>
      ContractURI c' = (case upd_ContractURI upd of None \<Rightarrow> ContractURI c | Some v \<Rightarrow> v) \<and>
      Issuer c' = (case upd_Issuer upd of None \<Rightarrow> Issuer c | Some v \<Rightarrow> v) \<and>
      IssuerLogoURL c' = (case upd_IssuerLogoURL upd of None \<Rightarrow> IssuerLogoURL c | Some v \<Rightarrow> v) \<and>
      ContractOperator c' = (case upd_ContractOperator upd of None \<Rightarrow> ContractOperator c | Some v \<Rightarrow> v) \<and>
      ContractAuthFlags c' = (case upd_ContractAuthFlags upd of None \<Rightarrow> ContractAuthFlags c | Some v \<Rightarrow> v) \<and>
      ContractFee c' = (case upd_ContractFee upd of None \<Rightarrow> ContractFee c | Some v \<Rightarrow> v) \<and>
      RestrictedQtyAssets c' = (case upd_RestrictedQtyAssets upd of None \<Rightarrow> RestrictedQtyAssets c | Some v \<Rightarrow> v) \<and>
      IssuerProposal c' = (case upd_IssuerProposal upd of None \<Rightarrow> IssuerProposal c | Some v \<Rightarrow> v) \<and>
      HolderProposal c' = (case upd_HolderProposal upd of None \<Rightarrow> HolderProposal c | Some v \<Rightarrow> v) \<and>
      FreezePeriod c' = (case upd_FreezePeriod upd of None \<Rightarrow> FreezePeriod c | Some v \<Rightarrow> v) \<and>
      VotingSystems c' =
        (case upd_VotingSystems upd of None \<Rightarrow> VotingSystems c | Some None \<Rightarrow> Some []
         | Some (Some xs) \<Rightarrow> Some xs) \<and>
      Oracles c' =
        (case upd_Oracles upd of None \<Rightarrow> Oracles c | Some None \<Rightarrow> Some []
         | Some (Some xs) \<Rightarrow> Some xs) \<and>
      ID c' = ID c \<and>
      CreatedAt c' = CreatedAt c \<and>
      AdministrationAddress c' = AdministrationAddress c \<and>
      OperatorAddress c' = OperatorAddress c \<and>
      MasterAddress c' = MasterAddress c \<and>
      MovedTo c' = MovedTo c \<and>
      AssetCodes c' = AssetCodes c \<and>
      AdminMemberAsset c' = AdminMemberAsset c"
proof -
  from assms obtain c where c: "dbConn contractPKH = Some c"
    and d: "db' = Save dbConn (apply_update upd now c)"
    by (auto simp: Update_def Fetch_def split: option.splits)
  show ?thesis
    apply (rule exI [of _ c], rule exI [of _ "apply_update upd now c"])
    apply (simp add: c d Save_def apply_update_def assign_def assign_slice_def
        split: option.splits)
    done
qed

theorem C9_Update_frame_witness:
  "Update [[1] \<mapsto> ex_Contract] [1] ex_UpdateContract 9
      = Inr ([[1] \<mapsto> apply_update ex_UpdateContract 9 ex_Contract])
   \<and> (\<exists>c c'. [[1] \<mapsto> ex_Contract] [1] = Some c
        \<and> [[1] \<mapsto> apply_update ex_UpdateContract 9 ex_Contract]
            = [[1] \<mapsto> ex_Contract](ID c \<mapsto> c')
        \<and> UpdatedAt c' = 9 \<and> FreezePeriod c' = 5 \<and> Oracles c' = Some []
        \<and> Revision c' = Revision c \<and> AssetCodes c' = AssetCodes c)"
proof -
  have h: "Update [[1] \<mapsto> ex_Contract] [1] ex_UpdateContract 9
      = Inr ([[1] \<mapsto> apply_update ex_UpdateContract 9 ex_Contract])"
    by (simp add: Update_def Fetch_def Save_def apply_update_def ex_Contract_def)
  from C9_Update_frame [OF h] show ?thesis
    apply (elim exE conjE)
    apply (rule conjI)
     apply (rule h)
    apply (rule_tac x = c in exI, rule_tac x = c' in exI)
    apply (simp add: ex_UpdateContract_def)
    done
qed

subsection \<open>Signature hash\<close>

text \<open>
  C10. For an input index greater than or equal to the number of inputs of the
  transaction, \<^verbatim>\<open>signatureHash\<close> returns nil, leaves the cache as it is and does not
  panic; for an index from 0 up to the number of inputs it returns a digest without a
  panic, that is, without an index out of range: the output of the SigHashSingle branch is
  read only when the index is below the number of outputs.
\<close>

theorem C10_signatureHash_index_safe:
  "(int (length (TxIn tx)) \<le> index \<longrightarrow>
      signatureHash lib tx index lockScript val hashType hashCache = Inr (None, hashCache))
   \<and> (0 \<le> index \<and> index < int (length (TxIn tx)) \<longrightarrow>
      (\<exists>h c. signatureHash lib tx index lockScript val hashType hashCache = Inr (Some h, c)))"
  by (auto simp: signatureHash_def index_at_def sighash_finish_def Let_def split: prod.splits)

theorem C10_signatureHash_index_safe_witness:
  "signatureHash ex_lib ex_tx 1 [] 0 SigHashAll ex_cache = Inr (None, ex_cache)
   \<and> (\<exists>h c. signatureHash ex_lib ex_tx 0 [] 0 SigHashSingle ex_cache = Inr (Some h, c))"
  using
    C10_signatureHash_index_safe [where tx = ex_tx and index = 1 and lib = ex_lib
      and lockScript = "[]" and val = 0 and hashType = SigHashAll and hashCache = ex_cache]
    C10_signatureHash_index_safe [where tx = ex_tx and index = 0 and lib = ex_lib
      and lockScript = "[]" and val = 0 and hashType = SigHashSingle and hashCache = ex_cache]
  by (simp add: ex_tx_def)

subsection \<open>Addresses\<close>

lemma decode_pkhs_fails: "decode_pkhs b pkhs = Inl ErrBadScriptHashLength"
proof (induction b pkhs rule: decode_pkhs.induct)
  case (1 b pkhs)
  show ?case
  proof (cases "length b < scriptHashLength")
    case True
    then show ?thesis by (subst decode_pkhs.simps) simp
  next
    case False
    with "1" show ?thesis by (subst decode_pkhs.simps) simp
  qed
qed

lemma length_PutUint16: "length (PutUint16 v) = 2"
  by (simp add: PutUint16_def)

lemmas addressType_defs =
  addressTypeMainPKH_def addressTypeMainSH_def addressTypeMainMultiPKH_def
  addressTypeMainRPH_def addressTypeTestPKH_def addressTypeTestSH_def
  addressTypeTestMultiPKH_def addressTypeTestRPH_def

text \<open>The bytes of a multi-PKH address never decode: the loop over the public key hashes
  is left only through its error.\<close>

lemma decodeAddressBytes_multi_pkh:
  "decodeAddressBytes (Address_bytes (AddressMultiPKH required pkhs net))
    = DecodeError ErrBadScriptHashLength"
  by (cases net)
    (simp_all add: decodeAddressBytes_def decode_multi_def decode_pkhs_fails length_PutUint16
      addressType_defs Let_def)

text \<open>The bytes of an address with a single hash of 20 bytes decode to the address.\<close>

lemma decodeAddressBytes_single_hash:
  assumes "length h = scriptHashLength"
  shows "decodeAddressBytes (Address_bytes (AddressPKH h net)) = Decoded (AddressPKH h net)"
    and "decodeAddressBytes (Address_bytes (AddressSH h net)) = Decoded (AddressSH h net)"
    and "decodeAddressBytes (Address_bytes (AddressRPH h net)) = Decoded (AddressRPH h net)"
proof -
  have l: "length h = 20" using assms by (simp add: scriptHashLength_def)
  show "decodeAddressBytes (Address_bytes (AddressPKH h net)) = Decoded (AddressPKH h net)"
    by (cases net)
      (simp_all add: decodeAddressBytes_def of_result_def NewAddressPKH_def l
        scriptHashLength_def addressType_defs)
  show "decodeAddressBytes (Address_bytes (AddressSH h net)) = Decoded (AddressSH h net)"
    by (cases net)
      (simp_all add: decodeAddressBytes_def of_result_def NewAddressSH_def l
        scriptHashLength_def addressType_defs)
  show "decodeAddressBytes (Address_bytes (AddressRPH h net)) = Decoded (AddressRPH h net)"
    by (cases net)
      (simp_all add: decodeAddressBytes_def of_result_def NewAddressRPH_def l
        scriptHashLength_def addressType_defs)
qed

lemma decodeAddress_encodeAddress:
  assumes "Base58Decode lib (Base58 lib (b @ take 4 (Sha256d lib b))) = b @ take 4 (Sha256d lib b)"
    and "4 \<le> length (Sha256d lib b)" and "b \<noteq> []"
  shows "decodeAddress lib (encodeAddress lib b) = Inr b"
  using assms by (simp add: decodeAddress_def encodeAddress_def Let_def)

lemma Address_bytes_not_Nil: "Address_bytes a \<noteq> []"
  by (cases a) simp_all

text \<open>With a Base58 decoder that inverts the encoder and a digest of 32 bytes, decoding the
  text form of an address is decoding its bytes.\<close>

lemma DecodeAddress_String:
  assumes "\<forall>b. Base58Decode lib (Base58 lib b) = b"
    and "\<forall>b. length (Sha256d lib b) = 32"
  shows "DecodeAddress lib (Address_String lib a) = decodeAddressBytes (Address_bytes a)"
proof -
  have "decodeAddress lib (encodeAddress lib (Address_bytes a)) = Inr (Address_bytes a)"
    using assms by (intro decodeAddress_encodeAddress Address_bytes_not_Nil) simp_all
  then show ?thesis
    by (simp add: DecodeAddress_def Address_String_def)
qed

text \<open>The round trip that C8 claims, for the three address types with a single hash.\<close>

lemma DecodeAddress_String_single_hash:
  assumes "\<forall>b. Base58Decode lib (Base58 lib b) = b"
    and "\<forall>b. length (Sha256d lib b) = 32"
    and "length h = scriptHashLength"
  shows "DecodeAddress lib (Address_String lib (AddressPKH h net)) = Decoded (AddressPKH h net)"
    and "DecodeAddress lib (Address_String lib (AddressSH h net)) = Decoded (AddressSH h net)"
    and "DecodeAddress lib (Address_String lib (AddressRPH h net)) = Decoded (AddressRPH h net)"
  using assms(3)
  by (simp_all only: DecodeAddress_String [OF assms(1,2)] decodeAddressBytes_single_hash)

text \<open>
  C8 fails on the code for multi-PKH addresses. Whatever the required count, the public
  key hashes and the network of a multi-PKH address, \<^verbatim>\<open>DecodeAddress\<close> applied to its
  Base58 text form does not return the address: it fails with the error of a script hash of
  bad length. (The Base58 decoder is taken to invert the encoder and the digest to have 32
  bytes.)
\<close>

theorem C8_multi_pkh_decode_fails:
  assumes "\<forall>b. Base58Decode lib (Base58 lib b) = b"
    and "\<forall>b. length (Sha256d lib b) = 32"
  shows "DecodeAddress lib (Address_String lib (AddressMultiPKH required pkhs net))
    = DecodeError ErrBadScriptHashLength"
  by (simp only: DecodeAddress_String [OF assms] decodeAddressBytes_multi_pkh)

lemma byte_char: "word_of_nat (unat x mod 256) = x" for x :: byte
proof -
  have "unat x < 256" using unsigned_less [of x, where ?'a = nat] by simp
  then show ?thesis by simp
qed

lemma ex_base58_roundtrip: "Base58Decode ex_base58 (Base58 ex_base58 b) = b"
  by (induction b) (simp_all add: ex_base58_def byte_char)

theorem C8_multi_pkh_decode_fails_witness:
  "DecodeAddress ex_base58 (Address_String ex_base58 ex_multi_pkh)
    = DecodeError ErrBadScriptHashLength"
  unfolding ex_multi_pkh_def
proof (rule C8_multi_pkh_decode_fails)
  show "\<forall>b. Base58Decode ex_base58 (Base58 ex_base58 b) = b"
    by (simp add: ex_base58_roundtrip)
  show "\<forall>b. length (Sha256d ex_base58 b) = 32"
    by (simp add: ex_base58_def)
qed

subsection \<open>Request handlers\<close>

lemma Retrieve_Some: "dbc rk = Some ct \<Longrightarrow> Retrieve dbc rk = Inr ct"
  by (simp add: Retrieve_def Fetch_def)

lemma Retrieve_None: "dbc rk = None \<Longrightarrow> Retrieve dbc rk = Inl ErrNotFound"
  by (simp add: Retrieve_def Fetch_def)

text \<open>
  C1, as amended. An AssetDefinition, an AssetModification or a ContractAmendment request
  that the codec accepted (reject code 0) and that is directed at a contract whose stored
  moved-to address is not empty is answered with a ContractMoved rejection, and the handler
  leaves the state as it is, whoever sent the request.
\<close>

theorem C1_moved_contract_rejected:
  assumes "itx_RejectCode itx = RejectionsSuccess"
    and "db_contracts db rk = Some ct"
    and "\<not> IsEmpty (MovedTo ct)"
  shows "(\<forall>msg. itx_MsgProto itx = MsgAssetDefinition msg \<longrightarrow>
            DefinitionRequest lib db itx rk now = (RespondReject RejectionsContractMoved, db))
      \<and> (\<forall>msg. itx_MsgProto itx = MsgAssetModification msg \<longrightarrow>
            ModificationRequest lib db itx rk now = (RespondReject RejectionsContractMoved, db))
      \<and> (\<forall>msg. itx_MsgProto itx = MsgContractAmendment msg \<longrightarrow>
            AmendmentRequest lib db itx rk now = (RespondReject RejectionsContractMoved, db))"
  using assms
  by (simp add: DefinitionRequest_def ModificationRequest_def AmendmentRequest_def Retrieve_Some)

text \<open>
  C5, as amended. An AssetDefinition request that passes the checks before the count check
  (the codec accepted it; the contract exists, has not moved, is not frozen and has not
  expired; the asset permissions are well formed; the first input is the administration;
  the generated asset code is unused) is answered with a FixedQuantity rejection, the
  state left as it is, when the asset limit of the contract is not zero and the contract
  has at least that many asset codes. When the limit is zero the count check passes and
  the request is not rejected with FixedQuantity.
\<close>

theorem C5_definition_count_check:
  assumes "itx_MsgProto itx = MsgAssetDefinition msg"
    and "itx_RejectCode itx = RejectionsSuccess"
    and "db_contracts db rk = Some ct"
    and "IsEmpty (MovedTo ct)"
    and "FreezePeriod ct \<le> now"
    and "ContractExpiration ct = 0 \<or> now \<le> ContractExpiration ct"
    and "PermissionsFromBytes lib (ad_AssetPermissions msg) (slice_len (VotingSystems ct))"
    and "itx_Inputs itx = input0 # inputs"
    and "in_Address input0 = AdministrationAddress ct"
    and "db_assets db (rk, AssetCodeFromContract lib rk (length (AssetCodes ct))) = None"
  shows "(RestrictedQtyAssets ct \<noteq> 0 \<and> RestrictedQtyAssets ct \<le> length (AssetCodes ct) \<longrightarrow>
            DefinitionRequest lib db itx rk now
              = (RespondReject RejectionsContractFixedQuantity, db))
      \<and> (RestrictedQtyAssets ct = 0 \<longrightarrow>
            CanHaveMoreAssets ct
            \<and> fst (DefinitionRequest lib db itx rk now)
                \<noteq> RespondReject RejectionsContractFixedQuantity)"
proof -
  have pre: "DefinitionRequest lib db itx rk now =
    (if \<not> CanHaveMoreAssets ct then (RespondReject RejectionsContractFixedQuantity, db)
     else
      (case assets_Deserialize lib (ad_AssetType msg) (ad_AssetPayload msg) of
         None \<Rightarrow> (RespondReject RejectionsMsgMalformed, db)
       | Some assetPayload \<Rightarrow>
          if \<not> payload_Validate lib assetPayload
          then (RespondReject RejectionsMsgMalformed, db)
          else if ad_AssetType msg = ''MEM'' \<and> \<not> IsZero (AdminMemberAsset ct)
          then
           (case assetPayload of
              Membership MembershipClass \<Rightarrow>
               if MembershipClass = ''Owner'' \<or> MembershipClass = ''Administrator''
               then (RespondReject RejectionsContractNotPermitted, db)
               else DefinitionRequest_accept lib db itx rk now msg ct
                      (AssetCodeFromContract lib rk (length (AssetCodes ct)))
            | _ \<Rightarrow> (RespondReject RejectionsMsgMalformed, db))
          else DefinitionRequest_accept lib db itx rk now msg ct
                 (AssetCodeFromContract lib rk (length (AssetCodes ct)))))"
    using assms
    by (auto simp: DefinitionRequest_def Retrieve_Some index_at_def asset_Retrieve_def Let_def)
  have acc: "fst (DefinitionRequest_accept lib db itx rk now msg ct c)
      \<noteq> RespondReject RejectionsContractFixedQuantity" for c
    by (simp add: DefinitionRequest_accept_def Let_def split: option.splits)
  show ?thesis
  proof (intro conjI impI)
    assume "RestrictedQtyAssets ct \<noteq> 0 \<and> RestrictedQtyAssets ct \<le> length (AssetCodes ct)"
    then show "DefinitionRequest lib db itx rk now
              = (RespondReject RejectionsContractFixedQuantity, db)"
      by (simp add: pre CanHaveMoreAssets_def)
  next
    assume "RestrictedQtyAssets ct = 0"
    then show "CanHaveMoreAssets ct" by (simp add: CanHaveMoreAssets_def)
  next
    assume "RestrictedQtyAssets ct = 0"
    then have "CanHaveMoreAssets ct" by (simp add: CanHaveMoreAssets_def)
    then show "fst (DefinitionRequest lib db itx rk now)
                \<noteq> RespondReject RejectionsContractFixedQuantity"
      by (simp add: pre acc split: option.splits asset_payload.splits)
  qed
qed


end
